theory Spec2Isabelle
  imports Main "HOL-Library.Char_ord" "HOL-Library.List_Lexorder" "HOL-Library.Sublist"
begin

section \<open>Strings and numbers of the host language\<close>

text \<open>
  A JavaScript string is modelled as the list of its characters. The three components
  use four string operations: \<^verbatim>\<open>toLowerCase\<close>, \<^verbatim>\<open>includes\<close>, \<^verbatim>\<open>startsWith\<close> and
  \<^verbatim>\<open>Number.prototype.toString\<close>. \<^verbatim>\<open>toLowerCase\<close> is given on the ASCII range:
  the letters A to Z are mapped to a to z, every other character is left as it is.
\<close>

definition lower_char :: "char \<Rightarrow> char" where
  "lower_char c =
     (if CHR ''A'' \<le> c \<and> c \<le> CHR ''Z'' then char_of (of_char c + (32::nat)) else c)"

definition toLowerCase :: "string \<Rightarrow> string" where
  "toLowerCase s = map lower_char s"

text \<open>
  On a string of ASCII characters (codes below 128) this is what JavaScript computes.
  Beyond ASCII JavaScript folds further letters, which \<open>lower_char\<close> leaves alone, so
  what is said about lowercasing is said of ASCII strings.
\<close>

definition ascii :: "string \<Rightarrow> bool" where
  "ascii s = list_all (\<lambda>c. of_char c < (128::nat)) s"

text \<open>\<^verbatim>\<open>s.startsWith(t)\<close>: the characters of \<open>t\<close> are the first characters of \<open>s\<close>.\<close>

fun startsWith :: "string \<Rightarrow> string \<Rightarrow> bool" where
  "startsWith s [] = True"
| "startsWith [] (c # cs) = False"
| "startsWith (x # xs) (c # cs) = (x = c \<and> startsWith xs cs)"

text \<open>\<^verbatim>\<open>s.includes(t)\<close>: \<open>t\<close> starts at some position of \<open>s\<close>.\<close>

fun includes_str :: "string \<Rightarrow> string \<Rightarrow> bool" where
  "includes_str [] t = (t = [])"
| "includes_str (x # xs) t = (startsWith (x # xs) t \<or> includes_str xs t)"

text \<open>
  \<^verbatim>\<open>chainId.toString()\<close> for an integral chain id in the safe range, of magnitude
  below \<open>2^53\<close>: JavaScript prints such a number digit for digit, with a leading minus
  sign when negative. Larger numbers are printed with rounded digits, and from
  \<open>10^21\<close> on with an exponent, so what is said about the printed chain id is said of
  the safe range.
\<close>

definition digit_char :: "nat \<Rightarrow> char" where
  "digit_char d = char_of (48 + d)"

fun nat_digits :: "nat \<Rightarrow> string" where
  "nat_digits n =
     (if n < 10 then [digit_char n] else nat_digits (n div 10) @ [digit_char (n mod 10)])"

definition toString :: "int \<Rightarrow> string" where
  "toString i = (if i < 0 then CHR ''-'' # nat_digits (nat (- i)) else nat_digits (nat i))"

text \<open>
  \<^verbatim>\<open>xs.slice(b, e)\<close> for non-negative bounds: the elements at the positions from \<open>b\<close>
  up to, and not including, \<open>e\<close>; positions beyond the end are left out.
\<close>

definition slice :: "nat \<Rightarrow> nat \<Rightarrow> 'a list \<Rightarrow> 'a list" where
  "slice b e xs = take (e - b) (drop b xs)"

section \<open>Network records\<close>

text \<open>A range bound is a number, a string or \<^verbatim>\<open>null\<close>.\<close>

datatype bound = NumBound int | StrBound string | NullBound

text \<open>
  A data item of an EVM provider is either a bare string or an object with a name and
  its ranges.
\<close>

datatype data_item = Plain string | Ranged string "(bound \<times> bound) list"

record evm_provider =
  data :: "data_item list"
  dataSourceUrl :: string
  provider :: string
  release :: string
  supportTier :: int

record NetworkData =
  chainId :: int
  chainName :: string
  id_str :: string
  isTestnet :: "bool option"
  logoUrl :: string
  network :: string
  providers :: "evm_provider list"

record solana_item =
  item_name :: string
  item_ranges :: "(string option \<times> string option) list"

record solana_provider =
  sol_data :: "solana_item list"
  sol_dataSourceUrl :: string
  sol_provider :: string
  sol_release :: string
  sol_supportTier :: int

record SolanaNetworkData =
  sol_id :: string
  sol_chainName :: string
  sol_isTestnet :: bool
  sol_network :: string
  sol_providers :: "solana_provider list"

record SubstrateNetworkData =
  name :: string
  displayName :: string
  tokens :: "string list"
  website :: string
  description :: string
  relayChain :: "string option"
  parachainId :: "string option"

section \<open>The component state\<close>

text \<open>
  Each component holds the same five \<^verbatim>\<open>useState\<close> cells; only the type of a network
  record differs.
\<close>

record 'n state =
  searchTerm :: string
  selectedNetwork :: "'n option"
  isDropdownOpen :: bool
  networks :: "'n list"
  loading :: bool

section \<open>Filtering\<close>

text \<open>
  A string is truthy when it is not empty; a nullable string is truthy when it is
  present and not empty.
\<close>

definition truthy :: "string option \<Rightarrow> bool" where
  "truthy v = (case v of None \<Rightarrow> False | Some s \<Rightarrow> s \<noteq> [])"

text \<open>The callbacks handed to \<^verbatim>\<open>networks.filter\<close>, one per component.\<close>

definition evm_matches :: "string \<Rightarrow> NetworkData \<Rightarrow> bool" where
  "evm_matches tm n =
     (let searchLower = toLowerCase tm in
        includes_str (toLowerCase (chainName n)) searchLower \<or>
        startsWith (toString (chainId n)) tm \<or>
        includes_str (toLowerCase (id_str n)) searchLower)"

definition solana_matches :: "string \<Rightarrow> SolanaNetworkData \<Rightarrow> bool" where
  "solana_matches tm n =
     (let searchLower = toLowerCase tm in
        includes_str (toLowerCase (sol_chainName n)) searchLower \<or>
        includes_str (toLowerCase (sol_id n)) searchLower \<or>
        includes_str (toLowerCase (sol_network n)) searchLower)"

definition substrate_matches :: "string \<Rightarrow> SubstrateNetworkData \<Rightarrow> bool" where
  "substrate_matches tm n =
     (let searchLower = toLowerCase tm in
        includes_str (toLowerCase (displayName n)) searchLower \<or>
        includes_str (toLowerCase (name n)) searchLower \<or>
        (truthy (parachainId n) \<and> startsWith (the (parachainId n)) tm) \<or>
        (truthy (relayChain n) \<and> includes_str (toLowerCase (the (relayChain n))) searchLower))"

text \<open>
  \<^verbatim>\<open>filteredNetworks\<close>: the whole list for an empty search term, otherwise the first
  ten records that pass the callback.
\<close>

definition evm_filteredNetworks :: "string \<Rightarrow> NetworkData list \<Rightarrow> NetworkData list" where
  "evm_filteredNetworks tm nets =
     (if tm = [] then nets else slice 0 10 (filter (evm_matches tm) nets))"

definition solana_filteredNetworks ::
  "string \<Rightarrow> SolanaNetworkData list \<Rightarrow> SolanaNetworkData list" where
  "solana_filteredNetworks tm nets =
     (if tm = [] then nets else slice 0 10 (filter (solana_matches tm) nets))"

definition substrate_filteredNetworks ::
  "string \<Rightarrow> SubstrateNetworkData list \<Rightarrow> SubstrateNetworkData list" where
  "substrate_filteredNetworks tm nets =
     (if tm = [] then nets else slice 0 10 (filter (substrate_matches tm) nets))"

section \<open>Available data of a network\<close>

text \<open>
  A JavaScript \<^verbatim>\<open>Set\<close> of strings keeps its elements in the order of their first
  insertion: it is the list of those elements, and \<^verbatim>\<open>add\<close> appends an element that
  is not there yet.
\<close>

definition set_add :: "string \<Rightarrow> string list \<Rightarrow> string list" where
  "set_add x s = (if x \<in> set s then s else s @ [x])"

text \<open>
  \<^verbatim>\<open>getAvailableData\<close>: the two nested \<^verbatim>\<open>forEach\<close> loops fill the set, provider by
  provider and item by item; \<^verbatim>\<open>Array.from(allData).sort()\<close> orders the names as
  strings, character code by character code.
\<close>

definition evm_getAvailableData :: "NetworkData \<Rightarrow> string list" where
  "evm_getAvailableData nw =
     (let allData =
        fold (\<lambda>p. fold (\<lambda>item. case item of
                                  Plain s \<Rightarrow> set_add s
                                | Ranged nm rs \<Rightarrow> set_add nm) (data p))
             (providers nw) []
      in sort allData)"

definition solana_getAvailableData :: "SolanaNetworkData \<Rightarrow> string list" where
  "solana_getAvailableData nw =
     (let allData =
        fold (\<lambda>p. fold (\<lambda>item. set_add (item_name item)) (sol_data p))
             (sol_providers nw) []
      in sort allData)"

section \<open>Event handlers\<close>

text \<open>
  The state setters called by one handler are applied together. The handlers
  \<^verbatim>\<open>handleInputChange\<close> and \<^verbatim>\<open>handleInputFocus\<close> read the same in the three
  components; \<^verbatim>\<open>handleNetworkSelect\<close> copies the display name of the component's
  record type into the search term.
\<close>

definition evm_handleNetworkSelect :: "NetworkData \<Rightarrow> NetworkData state \<Rightarrow> NetworkData state" where
  "evm_handleNetworkSelect nw st =
     st\<lparr>selectedNetwork := Some nw, searchTerm := chainName nw, isDropdownOpen := False\<rparr>"

definition solana_handleNetworkSelect ::
  "SolanaNetworkData \<Rightarrow> SolanaNetworkData state \<Rightarrow> SolanaNetworkData state" where
  "solana_handleNetworkSelect nw st =
     st\<lparr>selectedNetwork := Some nw, searchTerm := sol_chainName nw, isDropdownOpen := False\<rparr>"

definition substrate_handleNetworkSelect ::
  "SubstrateNetworkData \<Rightarrow> SubstrateNetworkData state \<Rightarrow> SubstrateNetworkData state" where
  "substrate_handleNetworkSelect nw st =
     st\<lparr>selectedNetwork := Some nw, searchTerm := displayName nw, isDropdownOpen := False\<rparr>"

definition handleInputChange :: "string \<Rightarrow> 'n state \<Rightarrow> 'n state" where
  "handleInputChange v st =
     st\<lparr>searchTerm := v, selectedNetwork := None, isDropdownOpen := True\<rparr>"

definition handleInputFocus :: "'n state \<Rightarrow> 'n state" where
  "handleInputFocus st = st\<lparr>isDropdownOpen := True\<rparr>"

text \<open>The callback that \<^verbatim>\<open>handleInputBlur\<close> hands to \<^verbatim>\<open>setTimeout\<close>.\<close>

definition closeDropdown :: "'n state \<Rightarrow> 'n state" where
  "closeDropdown st = st\<lparr>isDropdownOpen := False\<rparr>"

section \<open>Loading the static document\<close>

text \<open>
  What \<^verbatim>\<open>fetch\<close> followed by \<^verbatim>\<open>response.json()\<close> can give: the request is rejected,
  the body is not JSON, or a JSON value arrives. Of a JSON value the component reads one
  top-level property. Reading a property of \<^verbatim>\<open>null\<close> throws; reading one of a number,
  a string, a boolean or an array gives \<^verbatim>\<open>undefined\<close>; an object gives the value
  stored under the key, or \<^verbatim>\<open>undefined\<close>. The value under the key is taken to be of
  the component's declared type when it is not \<^verbatim>\<open>null\<close>: an array of network records.
\<close>

datatype 'n jsvalue = Undefined | Null | Networks "'n list"

datatype 'n document = NullDoc | OtherDoc | ObjectDoc "string \<rightharpoonup> 'n jsvalue"

datatype 'n response = FetchRejected | JsonRejected | Parsed "'n document"

datatype error = NetworkError | SyntaxError | TypeError

definition get_prop :: "string \<Rightarrow> 'n document \<Rightarrow> error + 'n jsvalue" where
  "get_prop k d =
     (case d of
        NullDoc \<Rightarrow> Inl TypeError
      | OtherDoc \<Rightarrow> Inr Undefined
      | ObjectDoc m \<Rightarrow> Inr (case m k of None \<Rightarrow> Undefined | Some v \<Rightarrow> v))"

text \<open>\<^verbatim>\<open>v || []\<close>: an array is truthy, also when empty; \<^verbatim>\<open>undefined\<close> and \<^verbatim>\<open>null\<close> are not.\<close>

definition or_empty :: "'n jsvalue \<Rightarrow> 'n list" where
  "or_empty v = (case v of Networks ns \<Rightarrow> ns | Undefined \<Rightarrow> [] | Null \<Rightarrow> [])"

text \<open>The body of the \<^verbatim>\<open>try\<close> block, up to the argument of \<^verbatim>\<open>setNetworks\<close>.\<close>

definition try_load :: "string \<Rightarrow> 'n response \<Rightarrow> error + 'n list" where
  "try_load k resp =
     (case resp of
        FetchRejected \<Rightarrow> Inl NetworkError
      | JsonRejected \<Rightarrow> Inl SyntaxError
      | Parsed d \<Rightarrow> (case get_prop k d of Inl e \<Rightarrow> Inl e | Inr v \<Rightarrow> Inr (or_empty v)))"

text \<open>
  \<^verbatim>\<open>fetchNetworks\<close> from the moment the request settles: \<^verbatim>\<open>try\<close>, \<^verbatim>\<open>catch\<close>, and
  \<^verbatim>\<open>finally\<close> in this order.
\<close>

definition evm_fetchNetworks :: "NetworkData response \<Rightarrow> NetworkData state \<Rightarrow> NetworkData state" where
  "evm_fetchNetworks resp st =
     (let st1 = (case try_load ''archives'' resp of
                   Inr ns \<Rightarrow> st\<lparr>networks := ns\<rparr>
                 | Inl e \<Rightarrow> st\<lparr>networks := []\<rparr>)
      in st1\<lparr>loading := False\<rparr>)"

definition solana_fetchNetworks ::
  "SolanaNetworkData response \<Rightarrow> SolanaNetworkData state \<Rightarrow> SolanaNetworkData state" where
  "solana_fetchNetworks resp st =
     (let st1 = (case try_load ''archives'' resp of
                   Inr ns \<Rightarrow> st\<lparr>networks := ns\<rparr>
                 | Inl e \<Rightarrow> st\<lparr>networks := []\<rparr>)
      in st1\<lparr>loading := False\<rparr>)"

definition substrate_fetchNetworks ::
  "SubstrateNetworkData response \<Rightarrow> SubstrateNetworkData state \<Rightarrow> SubstrateNetworkData state" where
  "substrate_fetchNetworks resp st =
     (let st1 = (case try_load ''networks'' resp of
                   Inr ns \<Rightarrow> st\<lparr>networks := ns\<rparr>
                 | Inl e \<Rightarrow> st\<lparr>networks := []\<rparr>)
      in st1\<lparr>loading := False\<rparr>)"

text \<open>A document has a top-level key when it is an object that stores a value under it.\<close>

definition has_key :: "string \<Rightarrow> 'n document \<Rightarrow> bool" where
  "has_key k d = (case d of ObjectDoc m \<Rightarrow> m k \<noteq> None | NullDoc \<Rightarrow> False | OtherDoc \<Rightarrow> False)"

section \<open>Rendering\<close>

text \<open>
  What a component returns: the loading placeholder, or the page with the value of the
  input, the dropdown (the listed records, when shown), the details panel (what it
  displays, when shown) and the message that the searched term is not in the data lake
  (the term it names, when shown).
\<close>

datatype ('n, 'd) view =
    LoadingView
  | PageView (inputValue: string) (dropdown: "'n list option") (details: "'d option")
      (notFound: "string option")

definition evm_render :: "NetworkData state \<Rightarrow> (NetworkData, NetworkData \<times> string list) view" where
  "evm_render st =
     (if loading st then LoadingView
      else
        let filteredNetworks = evm_filteredNetworks (searchTerm st) (networks st) in
        PageView (searchTerm st)
          (if isDropdownOpen st \<and> length filteredNetworks > 0 then Some filteredNetworks else None)
          (case selectedNetwork st of
             None \<Rightarrow> None
           | Some nw \<Rightarrow> Some (nw, evm_getAvailableData nw))
          (if searchTerm st \<noteq> [] \<and> selectedNetwork st = None \<and> length filteredNetworks = 0
           then Some (searchTerm st) else None))"

definition solana_render ::
  "SolanaNetworkData state \<Rightarrow> (SolanaNetworkData, SolanaNetworkData \<times> string list) view" where
  "solana_render st =
     (if loading st then LoadingView
      else
        let filteredNetworks = solana_filteredNetworks (searchTerm st) (networks st) in
        PageView (searchTerm st)
          (if isDropdownOpen st \<and> length filteredNetworks > 0 then Some filteredNetworks else None)
          (case selectedNetwork st of
             None \<Rightarrow> None
           | Some nw \<Rightarrow> Some (nw, solana_getAvailableData nw))
          (if searchTerm st \<noteq> [] \<and> selectedNetwork st = None \<and> length filteredNetworks = 0
           then Some (searchTerm st) else None))"

definition substrate_render ::
  "SubstrateNetworkData state \<Rightarrow> (SubstrateNetworkData, SubstrateNetworkData) view" where
  "substrate_render st =
     (if loading st then LoadingView
      else
        let filteredNetworks = substrate_filteredNetworks (searchTerm st) (networks st) in
        PageView (searchTerm st)
          (if isDropdownOpen st \<and> length filteredNetworks > 0 then Some filteredNetworks else None)
          (case selectedNetwork st of
             None \<Rightarrow> None
           | Some nw \<Rightarrow> Some nw)
          (if searchTerm st \<noteq> [] \<and> selectedNetwork st = None \<and> length filteredNetworks = 0
           then Some (searchTerm st) else None))"

section \<open>The life of a mounted component\<close>

text \<open>
  A mounted component is its state together with what it has asked of the browser: the
  requests issued with \<^verbatim>\<open>fetch\<close>, in order, and the delays of the timers set with
  \<^verbatim>\<open>setTimeout\<close> that have not fired yet. It also remembers the dependency array of
  the last render, which is how \<^verbatim>\<open>useEffect\<close> decides whether to run its effect.
\<close>

record 'n component =
  ui :: "'n state"
  fetchLog :: "string list"
  timers :: "nat list"
  effectDeps :: "unit list option"

datatype 'n event =
    InputChange string
  | InputFocus
  | InputBlur
  | NetworkSelect 'n
  | TimerFired
  | FetchSettled "'n response"

text \<open>The initial values of the five \<^verbatim>\<open>useState\<close> cells.\<close>

definition initial_state :: "'n state" where
  "initial_state =
     \<lparr>searchTerm = [], selectedNetwork = None, isDropdownOpen = False, networks = [],
      loading = True\<rparr>"

text \<open>
  \<^verbatim>\<open>useEffect(effect, deps)\<close>: the effect runs after the first render, and after a
  later render when the dependency array differs from that of the render before.
\<close>

definition deps_changed :: "'d list option \<Rightarrow> 'd list \<Rightarrow> bool" where
  "deps_changed prev deps = (case prev of None \<Rightarrow> True | Some old \<Rightarrow> old \<noteq> deps)"

definition useEffect ::
  "('n component \<Rightarrow> 'n component) \<Rightarrow> unit list \<Rightarrow> 'n component \<Rightarrow> 'n component" where
  "useEffect effect deps c =
     (if deps_changed (effectDeps c) deps then (effect c)\<lparr>effectDeps := Some deps\<rparr>
      else c\<lparr>effectDeps := Some deps\<rparr>)"

text \<open>Calling \<^verbatim>\<open>fetchNetworks()\<close> issues the request; the rest runs when it settles.\<close>

definition request :: "string \<Rightarrow> 'n component \<Rightarrow> 'n component" where
  "request url c = c\<lparr>fetchLog := fetchLog c @ [url]\<rparr>"

text \<open>\<^verbatim>\<open>handleInputBlur\<close> sets a timer of 200 milliseconds and leaves the state alone.\<close>

definition handleInputBlur :: "'n component \<Rightarrow> 'n component" where
  "handleInputBlur c = c\<lparr>timers := timers c @ [200]\<rparr>"

definition fire_timer :: "'n component \<Rightarrow> 'n component" where
  "fire_timer c =
     (case timers c of
        [] \<Rightarrow> c
      | t # ts \<Rightarrow> c\<lparr>ui := closeDropdown (ui c), timers := ts\<rparr>)"

text \<open>A render of each component: the one effect, with the empty dependency array.\<close>

definition evm_rerender :: "NetworkData component \<Rightarrow> NetworkData component" where
  "evm_rerender c = useEffect (request ''/json/evm.json'') [] c"

definition solana_rerender :: "SolanaNetworkData component \<Rightarrow> SolanaNetworkData component" where
  "solana_rerender c = useEffect (request ''/json/solana.json'') [] c"

definition substrate_rerender ::
  "SubstrateNetworkData component \<Rightarrow> SubstrateNetworkData component" where
  "substrate_rerender c = useEffect (request ''/json/substrate.json'') [] c"

definition unmounted :: "'n component" where
  "unmounted = \<lparr>ui = initial_state, fetchLog = [], timers = [], effectDeps = None\<rparr>"

definition evm_mount :: "NetworkData component" where
  "evm_mount = evm_rerender unmounted"

definition solana_mount :: "SolanaNetworkData component" where
  "solana_mount = solana_rerender unmounted"

definition substrate_mount :: "SubstrateNetworkData component" where
  "substrate_mount = substrate_rerender unmounted"

text \<open>One event: its handler runs, then the component renders again.\<close>

definition evm_step :: "NetworkData event \<Rightarrow> NetworkData component \<Rightarrow> NetworkData component" where
  "evm_step ev c =
     evm_rerender
       (case ev of
          InputChange v \<Rightarrow> c\<lparr>ui := handleInputChange v (ui c)\<rparr>
        | InputFocus \<Rightarrow> c\<lparr>ui := handleInputFocus (ui c)\<rparr>
        | InputBlur \<Rightarrow> handleInputBlur c
        | NetworkSelect nw \<Rightarrow> c\<lparr>ui := evm_handleNetworkSelect nw (ui c)\<rparr>
        | TimerFired \<Rightarrow> fire_timer c
        | FetchSettled resp \<Rightarrow> c\<lparr>ui := evm_fetchNetworks resp (ui c)\<rparr>)"

definition solana_step ::
  "SolanaNetworkData event \<Rightarrow> SolanaNetworkData component \<Rightarrow> SolanaNetworkData component" where
  "solana_step ev c =
     solana_rerender
       (case ev of
          InputChange v \<Rightarrow> c\<lparr>ui := handleInputChange v (ui c)\<rparr>
        | InputFocus \<Rightarrow> c\<lparr>ui := handleInputFocus (ui c)\<rparr>
        | InputBlur \<Rightarrow> handleInputBlur c
        | NetworkSelect nw \<Rightarrow> c\<lparr>ui := solana_handleNetworkSelect nw (ui c)\<rparr>
        | TimerFired \<Rightarrow> fire_timer c
        | FetchSettled resp \<Rightarrow> c\<lparr>ui := solana_fetchNetworks resp (ui c)\<rparr>)"

definition substrate_step ::
  "SubstrateNetworkData event \<Rightarrow> SubstrateNetworkData component \<Rightarrow> SubstrateNetworkData component" where
  "substrate_step ev c =
     substrate_rerender
       (case ev of
          InputChange v \<Rightarrow> c\<lparr>ui := handleInputChange v (ui c)\<rparr>
        | InputFocus \<Rightarrow> c\<lparr>ui := handleInputFocus (ui c)\<rparr>
        | InputBlur \<Rightarrow> handleInputBlur c
        | NetworkSelect nw \<Rightarrow> c\<lparr>ui := substrate_handleNetworkSelect nw (ui c)\<rparr>
        | TimerFired \<Rightarrow> fire_timer c
        | FetchSettled resp \<Rightarrow> c\<lparr>ui := substrate_fetchNetworks resp (ui c)\<rparr>)"

text \<open>A mount followed by a sequence of events.\<close>

definition evm_run :: "NetworkData event list \<Rightarrow> NetworkData component" where
  "evm_run evs = fold evm_step evs evm_mount"

definition solana_run :: "SolanaNetworkData event list \<Rightarrow> SolanaNetworkData component" where
  "solana_run evs = fold solana_step evs solana_mount"

definition substrate_run :: "SubstrateNetworkData event list \<Rightarrow> SubstrateNetworkData component" where
  "substrate_run evs = fold substrate_step evs substrate_mount"

text \<open>
  The selection and the search term agree: a selected record's display name is the
  search term.
\<close>

definition selection_shown :: "('n \<Rightarrow> string) \<Rightarrow> 'n state \<Rightarrow> bool" where
  "selection_shown display st =
     (case selectedNetwork st of None \<Rightarrow> True | Some nw \<Rightarrow> searchTerm st = display nw)"

section \<open>Arrays and sets as objects in a store\<close>

text \<open>
  Arrays and sets are objects that several references can share, and \<^verbatim>\<open>Set.add\<close> and
  \<^verbatim>\<open>Array.sort\<close> change their object in place. To say what a computation leaves
  alone, the objects live in a store, a reference is a position in it, and every
  operation takes the store and returns the new one. \<^verbatim>\<open>filter\<close>, \<^verbatim>\<open>slice\<close>,
  \<^verbatim>\<open>new Set\<close> and \<^verbatim>\<open>Array.from\<close> make a new object; \<^verbatim>\<open>add\<close> and \<^verbatim>\<open>sort\<close>
  overwrite the object they are called on. An operation on a reference that does not
  hold an object of the right kind has no result.
\<close>

datatype 'n obj =
    NetworkArray "'n list"
  | NetworkObj 'n
  | StringSet "string list"
  | StringArray "string list"

type_synonym 'n store = "'n obj list"

definition alloc :: "'n obj \<Rightarrow> 'n store \<Rightarrow> nat \<times> 'n store" where
  "alloc ob h = (length h, h @ [ob])"

definition array_filter :: "('n \<Rightarrow> bool) \<Rightarrow> nat \<Rightarrow> 'n store \<Rightarrow> (nat \<times> 'n store) option" where
  "array_filter f a h =
     (if a < length h then
        (case h ! a of
           NetworkArray xs \<Rightarrow> Some (alloc (NetworkArray (filter f xs)) h)
         | NetworkObj nw \<Rightarrow> None
         | StringSet s \<Rightarrow> None
         | StringArray s \<Rightarrow> None)
      else None)"

definition array_slice :: "nat \<Rightarrow> nat \<Rightarrow> nat \<Rightarrow> 'n store \<Rightarrow> (nat \<times> 'n store) option" where
  "array_slice b e a h =
     (if a < length h then
        (case h ! a of
           NetworkArray xs \<Rightarrow> Some (alloc (NetworkArray (slice b e xs)) h)
         | NetworkObj nw \<Rightarrow> None
         | StringSet s \<Rightarrow> None
         | StringArray s \<Rightarrow> Some (alloc (StringArray (slice b e s)) h))
      else None)"

definition new_Set :: "'n store \<Rightarrow> nat \<times> 'n store" where
  "new_Set h = alloc (StringSet []) h"

definition Set_add :: "nat \<Rightarrow> string \<Rightarrow> 'n store \<Rightarrow> 'n store option" where
  "Set_add a x h =
     (if a < length h then
        (case h ! a of
           StringSet s \<Rightarrow> Some (h[a := StringSet (set_add x s)])
         | NetworkArray xs \<Rightarrow> None
         | NetworkObj nw \<Rightarrow> None
         | StringArray s \<Rightarrow> None)
      else None)"

definition Array_from :: "nat \<Rightarrow> 'n store \<Rightarrow> (nat \<times> 'n store) option" where
  "Array_from a h =
     (if a < length h then
        (case h ! a of
           StringSet s \<Rightarrow> Some (alloc (StringArray s) h)
         | NetworkArray xs \<Rightarrow> None
         | NetworkObj nw \<Rightarrow> None
         | StringArray s \<Rightarrow> Some (alloc (StringArray s) h))
      else None)"

definition array_sort :: "nat \<Rightarrow> 'n store \<Rightarrow> (nat \<times> 'n store) option" where
  "array_sort a h =
     (if a < length h then
        (case h ! a of
           StringArray s \<Rightarrow> Some (a, h[a := StringArray (sort s)])
         | NetworkArray xs \<Rightarrow> None
         | NetworkObj nw \<Rightarrow> None
         | StringSet s \<Rightarrow> None)
      else None)"

text \<open>The \<^verbatim>\<open>forEach\<close> loop that adds a list of names to the set at a reference.\<close>

fun add_all :: "nat \<Rightarrow> string list \<Rightarrow> 'n store \<Rightarrow> 'n store option" where
  "add_all a [] h = Some h"
| "add_all a (x # xs) h = (case Set_add a x h of None \<Rightarrow> None | Some h1 \<Rightarrow> add_all a xs h1)"

text \<open>
  \<^verbatim>\<open>filteredNetworks\<close> on the store: \<open>nets\<close> is the reference held by the
  \<^verbatim>\<open>networks\<close> cell. For an empty search term the result is that very reference.
\<close>

definition evm_filteredNetworks_store ::
  "string \<Rightarrow> nat \<Rightarrow> NetworkData store \<Rightarrow> (nat \<times> NetworkData store) option" where
  "evm_filteredNetworks_store tm nets h =
     (if tm = [] then Some (nets, h)
      else
        (case array_filter (evm_matches tm) nets h of
           None \<Rightarrow> None
         | Some (a, h1) \<Rightarrow> array_slice 0 10 a h1))"

definition solana_filteredNetworks_store ::
  "string \<Rightarrow> nat \<Rightarrow> SolanaNetworkData store \<Rightarrow> (nat \<times> SolanaNetworkData store) option" where
  "solana_filteredNetworks_store tm nets h =
     (if tm = [] then Some (nets, h)
      else
        (case array_filter (solana_matches tm) nets h of
           None \<Rightarrow> None
         | Some (a, h1) \<Rightarrow> array_slice 0 10 a h1))"

text \<open>
  The outer \<^verbatim>\<open>forEach\<close> loop: one inner loop per provider, over the names of its
  data items.
\<close>

fun add_each :: "nat \<Rightarrow> string list list \<Rightarrow> 'n store \<Rightarrow> 'n store option" where
  "add_each a [] h = Some h"
| "add_each a (xs # xss) h = (case add_all a xs h of None \<Rightarrow> None | Some h1 \<Rightarrow> add_each a xss h1)"

text \<open>The names of the data items of a network, provider by provider.\<close>

definition evm_item_names :: "NetworkData \<Rightarrow> string list list" where
  "evm_item_names nw =
     map (\<lambda>p. map (\<lambda>item. case item of Plain s \<Rightarrow> s | Ranged nm rs \<Rightarrow> nm) (data p))
         (providers nw)"

definition solana_item_names :: "SolanaNetworkData \<Rightarrow> string list list" where
  "solana_item_names nw = map (\<lambda>p. map item_name (sol_data p)) (sol_providers nw)"

text \<open>
  \<^verbatim>\<open>getAvailableData\<close> on the store: \<open>r\<close> is the reference to the network record.
\<close>

definition getAvailableData_store ::
  "('n \<Rightarrow> string list list) \<Rightarrow> nat \<Rightarrow> 'n store \<Rightarrow> (nat \<times> 'n store) option" where
  "getAvailableData_store names r h =
     (if r < length h then
        (case h ! r of
           NetworkObj nw \<Rightarrow>
             (let (allData, h1) = new_Set h in
                case add_each allData (names nw) h1 of
                  None \<Rightarrow> None
                | Some h2 \<Rightarrow>
                    (case Array_from allData h2 of
                       None \<Rightarrow> None
                     | Some (arr, h3) \<Rightarrow> array_sort arr h3))
         | NetworkArray xs \<Rightarrow> None
         | StringSet s \<Rightarrow> None
         | StringArray s \<Rightarrow> None)
      else None)"

definition evm_getAvailableData_store ::
  "nat \<Rightarrow> NetworkData store \<Rightarrow> (nat \<times> NetworkData store) option" where
  "evm_getAvailableData_store r h = getAvailableData_store evm_item_names r h"

definition solana_getAvailableData_store ::
  "nat \<Rightarrow> SolanaNetworkData store \<Rightarrow> (nat \<times> SolanaNetworkData store) option" where
  "solana_getAvailableData_store r h = getAvailableData_store solana_item_names r h"

section \<open>Sample records\<close>

definition polygon :: NetworkData where
  "polygon =
     \<lparr>chainId = 137, chainName = ''Polygon'', id_str = ''polygon-mainnet'', isTestnet = Some False,
      logoUrl = [], network = ''polygon-mainnet'',
      providers =
        [\<lparr>data = [Plain ''traces'', Ranged ''blocks'' [(NumBound 0, NullBound)], Plain ''logs''],
          dataSourceUrl = ''https://v2.archive.subsquid.io/network/polygon-mainnet'',
          provider = ''subsquid'', release = ''ArrowSquid'', supportTier = 1\<rparr>,
         \<lparr>data = [Ranged ''logs'' [(NumBound 0, NumBound 100)], Plain ''blocks''],
          dataSourceUrl = ''https://portal.sqd.dev/datasets/polygon-mainnet'',
          provider = ''portal'', release = ''Portal'', supportTier = 2\<rparr>]\<rparr>"

definition solana_mainnet :: SolanaNetworkData where
  "solana_mainnet =
     \<lparr>sol_id = ''solana-mainnet'', sol_chainName = ''Solana'', sol_isTestnet = False,
      sol_network = ''solana-mainnet'',
      sol_providers =
        [\<lparr>sol_data =
            [\<lparr>item_name = ''transactions'', item_ranges = [(Some ''250000000'', None)]\<rparr>,
             \<lparr>item_name = ''blocks'', item_ranges = [(Some ''250000000'', None)]\<rparr>,
             \<lparr>item_name = ''transactions'', item_ranges = []\<rparr>],
          sol_dataSourceUrl = ''https://portal.sqd.dev/datasets/solana-mainnet'',
          sol_provider = ''subsquid'', sol_release = ''Portal'', sol_supportTier = 1\<rparr>]\<rparr>"

definition moonbeam :: SubstrateNetworkData where
  "moonbeam =
     \<lparr>name = ''moonbeam'', displayName = ''Moonbeam'', tokens = [''GLMR''],
      website = ''https://moonbeam.network'', description = [],
      relayChain = Some ''polkadot'', parachainId = Some ''2004''\<rparr>"

text \<open>States after loading: a selected record, a search under way, a search without a match.\<close>

definition polygon_selected :: "NetworkData state" where
  "polygon_selected =
     \<lparr>searchTerm = ''Polygon'', selectedNetwork = Some polygon, isDropdownOpen = False,
      networks = [polygon], loading = False\<rparr>"

definition solana_selected :: "SolanaNetworkData state" where
  "solana_selected =
     \<lparr>searchTerm = ''Solana'', selectedNetwork = Some solana_mainnet, isDropdownOpen = False,
      networks = [solana_mainnet], loading = False\<rparr>"

definition solana_typing :: "SolanaNetworkData state" where
  "solana_typing =
     \<lparr>searchTerm = ''sol'', selectedNetwork = None, isDropdownOpen = True,
      networks = [solana_mainnet], loading = False\<rparr>"

definition substrate_unknown :: "SubstrateNetworkData state" where
  "substrate_unknown =
     \<lparr>searchTerm = ''zzz'', selectedNetwork = None, isDropdownOpen = True,
      networks = [moonbeam], loading = False\<rparr>"

text \<open>Stores that hold a network list and a network record.\<close>

definition evm_store :: "NetworkData store" where
  "evm_store = [NetworkArray [polygon, polygon], NetworkObj polygon]"

definition solana_store :: "SolanaNetworkData store" where
  "solana_store = [NetworkObj solana_mainnet, NetworkArray [solana_mainnet]]"

section \<open>Facts about the string operations\<close>

lemma startsWith_iff_prefix: "startsWith s t \<longleftrightarrow> prefix t s"
  by (induction s t rule: startsWith.induct) auto

lemma includes_iff_sublist: "includes_str s t \<longleftrightarrow> sublist t s"
proof (induction s)
  case Nil
  show ?case by simp
next
  case (Cons x xs)
  show ?case
    by (simp only: includes_str.simps Cons.IH startsWith_iff_prefix sublist_Cons_right)
qed

lemma includes_iff: "includes_str s t \<longleftrightarrow> (\<exists>pre suf. s = pre @ t @ suf)"
  by (simp add: includes_iff_sublist sublist_def)

text \<open>
  What \<open>toLowerCase\<close> does: a capital letter moves 32 codes up to its small letter,
  every other character stays, so the alphabet is folded, a string without capital
  letters is left as it is, and lowercasing twice is lowercasing once.
\<close>

lemma lower_char_capital:
  "CHR ''A'' \<le> c \<Longrightarrow> c \<le> CHR ''Z'' \<Longrightarrow> of_char (lower_char c) = of_char c + (32::nat)"
  by (simp add: lower_char_def less_eq_char_def)

lemma lower_char_other: "\<not> (CHR ''A'' \<le> c \<and> c \<le> CHR ''Z'') \<Longrightarrow> lower_char c = c"
  by (auto simp: lower_char_def)

lemma lower_char_not_capital: "\<not> (CHR ''A'' \<le> lower_char c \<and> lower_char c \<le> CHR ''Z'')"
proof (cases "CHR ''A'' \<le> c \<and> c \<le> CHR ''Z''")
  case True
  then have "of_char (lower_char c) = of_char c + (32::nat)"
    by (simp add: lower_char_capital)
  moreover have "(65::nat) \<le> of_char c"
    using True by (simp add: less_eq_char_def)
  ultimately show ?thesis
    by (simp add: less_eq_char_def)
next
  case False
  then show ?thesis by (simp add: lower_char_other)
qed

lemma lower_char_idem: "lower_char (lower_char c) = lower_char c"
  by (rule lower_char_other) (rule lower_char_not_capital)

lemma toLowerCase_idem: "toLowerCase (toLowerCase s) = toLowerCase s"
  by (simp add: toLowerCase_def lower_char_idem)

lemma toLowerCase_alphabet:
  "toLowerCase ''ABCDEFGHIJKLMNOPQRSTUVWXYZ'' = ''abcdefghijklmnopqrstuvwxyz''"
  by code_simp

lemma toLowerCase_fixed:
  "\<forall>c\<in>set s. \<not> (CHR ''A'' \<le> c \<and> c \<le> CHR ''Z'') \<Longrightarrow> toLowerCase s = s"
  by (induction s) (simp_all add: toLowerCase_def lower_char_other)

lemma length_toLowerCase: "length (toLowerCase s) = length s"
  by (simp add: toLowerCase_def)

lemma ascii_toLowerCase: "ascii s \<Longrightarrow> ascii (toLowerCase s)"
proof (induction s)
  case Nil
  show ?case by (simp add: ascii_def toLowerCase_def)
next
  case (Cons c s)
  have "of_char (lower_char c) < (128::nat)"
  proof (cases "CHR ''A'' \<le> c \<and> c \<le> CHR ''Z''")
    case True
    then have "of_char c \<le> (90::nat)" by (simp add: less_eq_char_def)
    then show ?thesis using True by (simp add: lower_char_capital)
  next
    case False
    then show ?thesis using Cons.prems by (simp add: lower_char_other ascii_def)
  qed
  then show ?case
    using Cons by (simp add: ascii_def toLowerCase_def)
qed

lemma length_slice_le: "length (slice 0 n xs) \<le> n"
  by (simp add: slice_def)

section \<open>Facts about filtering\<close>

lemma slice0: "slice 0 n xs = take n xs" by (simp add: slice_def)

lemma take_filter_split:
  "\<exists>k\<le>length xs. take n (filter f xs) = filter f (take k xs)"
proof (induction xs arbitrary: n)
  case Nil
  show ?case by simp
next
  case (Cons x xs)
  show ?case
  proof (cases n)
    case 0
    have "take n (filter f (x # xs)) = filter f (take 0 (x # xs))" using 0 by simp
    then show ?thesis by blast
  next
    case (Suc m)
    show ?thesis
    proof (cases "f x")
      case True
      from Cons.IH [of m] obtain k where k: "k \<le> length xs" "take m (filter f xs) = filter f (take k xs)"
        by blast
      have "take n (filter f (x # xs)) = filter f (take (Suc k) (x # xs))"
        using True Suc k by simp
      moreover have "Suc k \<le> length (x # xs)" using k by simp
      ultimately show ?thesis by blast
    next
      case False
      from Cons.IH [of n] obtain k where k: "k \<le> length xs" "take n (filter f xs) = filter f (take k xs)"
        by blast
      have "take n (filter f (x # xs)) = filter f (take (Suc k) (x # xs))"
        using False k by simp
      moreover have "Suc k \<le> length (x # xs)" using k by simp
      ultimately show ?thesis by blast
    qed
  qed
qed

lemma first_matches:
  "subseq (slice 0 n (filter f xs)) xs \<and>
   (\<forall>x\<in>set (slice 0 n (filter f xs)). f x) \<and>
   length (slice 0 n (filter f xs)) = min n (length (filter f xs)) \<and>
   (\<exists>k\<le>length xs. slice 0 n (filter f xs) = filter f (take k xs))"
proof -
  have "subseq (take n (filter f xs)) (filter f xs)"
    by (rule prefix_imp_subseq) (rule take_is_prefix)
  then have a: "subseq (take n (filter f xs)) xs"
    by (rule subseq_order.order_trans) (rule subseq_filter_left)
  have b: "\<forall>x\<in>set (take n (filter f xs)). f x"
    by (auto dest: in_set_takeD)
  have c: "length (take n (filter f xs)) = min n (length (filter f xs))"
    by (simp add: min.commute)
  note d = take_filter_split [of xs n f]
  show ?thesis unfolding slice0 using a b c d by blast
qed

lemma truthy_startsWith:
  "tm \<noteq> [] \<Longrightarrow>
   (truthy v \<and> startsWith (the v) tm) \<longleftrightarrow> (\<exists>s. v = Some s \<and> prefix tm s)"
  by (cases v) (auto simp: truthy_def startsWith_iff_prefix)

lemma truthy_includes:
  "tm \<noteq> [] \<Longrightarrow>
   (truthy v \<and> includes_str (toLowerCase (the v)) (toLowerCase tm)) \<longleftrightarrow>
   (\<exists>s. v = Some s \<and> sublist (toLowerCase tm) (toLowerCase s))"
  by (cases v) (auto simp: truthy_def includes_iff_sublist toLowerCase_def)

section \<open>Facts about the available data\<close>

lemma set_set_add: "set (set_add x s) = insert x (set s)"
  by (auto simp: set_add_def)

lemma distinct_set_add: "distinct s \<Longrightarrow> distinct (set_add x s)"
  by (simp add: set_add_def)

lemma set_fold_add: "set (fold (\<lambda>item. set_add (g item)) items s) = set s \<union> g ` set items"
  by (induction items arbitrary: s) (auto simp: set_set_add)

lemma distinct_fold_add:
  "distinct s \<Longrightarrow> distinct (fold (\<lambda>item. set_add (g item)) items s)"
  by (induction items arbitrary: s) (simp_all add: distinct_set_add)

lemma set_fold_fold_add:
  "set (fold (\<lambda>p. fold (\<lambda>item. set_add (g item)) (items p)) ps s) =
   set s \<union> (\<Union>p\<in>set ps. g ` set (items p))"
  by (induction ps arbitrary: s) (auto simp: set_fold_add)

lemma distinct_fold_fold_add:
  "distinct s \<Longrightarrow> distinct (fold (\<lambda>p. fold (\<lambda>item. set_add (g item)) (items p)) ps s)"
  by (induction ps arbitrary: s) (simp_all add: distinct_fold_add)

lemma item_case_add:
  "(case item of Plain s \<Rightarrow> set_add s | Ranged nm rs \<Rightarrow> set_add nm) =
   set_add (case item of Plain s \<Rightarrow> s | Ranged nm rs \<Rightarrow> nm)"
  by (cases item) simp_all

lemma evm_getAvailableData_eq:
  "evm_getAvailableData nw =
   sort (fold (\<lambda>p. fold (\<lambda>item. set_add (case item of Plain s \<Rightarrow> s | Ranged nm rs \<Rightarrow> nm))
                        (data p)) (providers nw) [])"
  by (simp add: evm_getAvailableData_def item_case_add)

lemma solana_getAvailableData_eq:
  "solana_getAvailableData nw =
   sort (fold (\<lambda>p. fold (\<lambda>item. set_add (item_name item)) (sol_data p)) (sol_providers nw) [])"
  by (simp add: solana_getAvailableData_def)

section \<open>Facts about loading\<close>

lemma try_load_no_key:
  "\<not> has_key k d \<Longrightarrow> try_load k (Parsed d) = Inl TypeError \<or> try_load k (Parsed d) = Inr []"
  by (cases d) (simp_all add: try_load_def get_prop_def has_key_def or_empty_def)

lemma try_load_failure:
  assumes "resp = FetchRejected \<or> resp = JsonRejected \<or> (\<exists>d. resp = Parsed d \<and> \<not> has_key k d)"
  shows "try_load k resp = Inl NetworkError \<or> try_load k resp = Inl SyntaxError \<or>
         try_load k resp = Inl TypeError \<or> try_load k resp = Inr []"
  using assms
proof (elim disjE exE conjE)
  assume "resp = FetchRejected"
  then show ?thesis by (simp add: try_load_def)
next
  assume "resp = JsonRejected"
  then show ?thesis by (simp add: try_load_def)
next
  fix d
  assume "resp = Parsed d" "\<not> has_key k d"
  then show ?thesis using try_load_no_key [of k d] by blast
qed

lemma settle_loading:
  "loading ((case r of Inr ns \<Rightarrow> st\<lparr>networks := ns\<rparr> | Inl e \<Rightarrow> st\<lparr>networks := []\<rparr>)\<lparr>loading := False\<rparr>) = False"
  by simp

lemma settle_failure:
  "r = Inl NetworkError \<or> r = Inl SyntaxError \<or> r = Inl TypeError \<or> r = Inr [] \<Longrightarrow>
   networks ((case r of Inr ns \<Rightarrow> st\<lparr>networks := ns\<rparr> | Inl e \<Rightarrow> st\<lparr>networks := []\<rparr>)\<lparr>loading := False\<rparr>) = []"
  by auto

lemma settle_selection:
  "selectedNetwork ((case r of Inr ns \<Rightarrow> st\<lparr>networks := ns\<rparr> | Inl e \<Rightarrow> st\<lparr>networks := []\<rparr>)\<lparr>loading := False\<rparr>) =
     selectedNetwork st \<and>
   searchTerm ((case r of Inr ns \<Rightarrow> st\<lparr>networks := ns\<rparr> | Inl e \<Rightarrow> st\<lparr>networks := []\<rparr>)\<lparr>loading := False\<rparr>) =
     searchTerm st"
  by (cases r) simp_all

section \<open>Facts about the life of a component\<close>

lemma rerender_ui:
  "ui (useEffect (request url) [] c) = ui c"
  by (simp add: useEffect_def request_def)

lemma rerender_mounted:
  "effectDeps c = Some [] \<Longrightarrow>
   fetchLog (useEffect (request url) [] c) = fetchLog c \<and>
   effectDeps (useEffect (request url) [] c) = Some []"
  by (simp add: useEffect_def deps_changed_def)

lemma mount_fetches:
  "fetchLog (useEffect (request url) [] unmounted) = [url] \<and>
   effectDeps (useEffect (request url) [] unmounted) = Some []"
  by (simp add: useEffect_def deps_changed_def unmounted_def request_def)

lemma fire_timer_frame:
  "fetchLog (fire_timer c) = fetchLog c \<and> effectDeps (fire_timer c) = effectDeps c \<and>
   selectedNetwork (ui (fire_timer c)) = selectedNetwork (ui c) \<and>
   searchTerm (ui (fire_timer c)) = searchTerm (ui c)"
  by (simp add: fire_timer_def closeDropdown_def split: list.splits)

lemma handleInputBlur_frame:
  "fetchLog (handleInputBlur c) = fetchLog c \<and> effectDeps (handleInputBlur c) = effectDeps c \<and>
   ui (handleInputBlur c) = ui c"
  by (simp add: handleInputBlur_def)

lemma handlers_keep_selection:
  "selectedNetwork (handleInputFocus st) = selectedNetwork st \<and>
   searchTerm (handleInputFocus st) = searchTerm st \<and>
   selectedNetwork (closeDropdown st) = selectedNetwork st \<and>
   searchTerm (closeDropdown st) = searchTerm st \<and>
   selectedNetwork (handleInputChange v st) = None \<and>
   searchTerm (handleInputChange v st) = v"
  by (simp add: handleInputFocus_def closeDropdown_def handleInputChange_def)

lemma selection_shown_cong:
  "selectedNetwork st' = selectedNetwork st \<Longrightarrow> searchTerm st' = searchTerm st \<Longrightarrow>
   selection_shown display st' = selection_shown display st"
  by (simp add: selection_shown_def split: option.splits)

lemma selection_shown_None: "selectedNetwork st = None \<Longrightarrow> selection_shown display st"
  by (simp add: selection_shown_def)

lemma fire_timer_selection:
  "selection_shown display (ui (fire_timer c)) = selection_shown display (ui c)"
  by (rule selection_shown_cong) (simp_all add: fire_timer_frame)

lemma evm_step_mounted:
  assumes "effectDeps c = Some []"
  shows "fetchLog (evm_step ev c) = fetchLog c \<and> effectDeps (evm_step ev c) = Some []"
proof -
  define c' where "c' =
       (case ev of
          InputChange v \<Rightarrow> c\<lparr>ui := handleInputChange v (ui c)\<rparr>
        | InputFocus \<Rightarrow> c\<lparr>ui := handleInputFocus (ui c)\<rparr>
        | InputBlur \<Rightarrow> handleInputBlur c
        | NetworkSelect nw \<Rightarrow> c\<lparr>ui := evm_handleNetworkSelect nw (ui c)\<rparr>
        | TimerFired \<Rightarrow> fire_timer c
        | FetchSettled resp \<Rightarrow> c\<lparr>ui := evm_fetchNetworks resp (ui c)\<rparr>)"
  have "fetchLog c' = fetchLog c \<and> effectDeps c' = Some []"
    unfolding c'_def using assms
    by (cases ev) (simp_all add: fire_timer_frame handleInputBlur_frame)
  moreover have "evm_step ev c = useEffect (request ''/json/evm.json'') [] c'"
    by (simp add: evm_step_def evm_rerender_def c'_def)
  ultimately show ?thesis using rerender_mounted [of c' "''/json/evm.json''"] by simp
qed

lemma evm_run_mounted:
  "effectDeps c = Some [] \<Longrightarrow>
   fetchLog (fold evm_step evs c) = fetchLog c \<and> effectDeps (fold evm_step evs c) = Some []"
  by (induction evs arbitrary: c) (simp_all add: evm_step_mounted)

lemma evm_select_shown:
  "selection_shown chainName (evm_handleNetworkSelect nw st) \<and>
   selectedNetwork (evm_handleNetworkSelect nw st) = Some nw"
  by (simp add: selection_shown_def evm_handleNetworkSelect_def)

lemma evm_settle_selection:
  "selection_shown display (evm_fetchNetworks resp st) = selection_shown display st"
  unfolding evm_fetchNetworks_def Let_def
  by (rule selection_shown_cong) (simp_all add: settle_selection)

lemma evm_step_selection:
  assumes "selection_shown chainName (ui c)"
  shows "selection_shown chainName (ui (evm_step ev c))"
proof (cases ev)
  case (InputChange v)
  then show ?thesis
    by (simp add: evm_step_def evm_rerender_def rerender_ui selection_shown_None
        handlers_keep_selection)
next
  case InputFocus
  then show ?thesis
    using assms selection_shown_cong [of "handleInputFocus (ui c)" "ui c" chainName]
    by (simp add: evm_step_def evm_rerender_def rerender_ui handlers_keep_selection)
next
  case InputBlur
  then show ?thesis
    using assms
    by (simp add: evm_step_def evm_rerender_def rerender_ui handleInputBlur_frame)
next
  case (NetworkSelect nw)
  then show ?thesis
    by (simp add: evm_step_def evm_rerender_def rerender_ui evm_select_shown)
next
  case TimerFired
  then show ?thesis
    using assms
    by (simp add: evm_step_def evm_rerender_def rerender_ui fire_timer_selection)
next
  case (FetchSettled resp)
  then show ?thesis
    using assms
    by (simp add: evm_step_def evm_rerender_def rerender_ui evm_settle_selection)
qed

lemma evm_fold_selection:
  "selection_shown chainName (ui c) \<Longrightarrow> selection_shown chainName (ui (fold evm_step evs c))"
  by (induction evs arbitrary: c) (simp_all add: evm_step_selection)

lemma evm_mount_selection: "selection_shown chainName (ui evm_mount)"
  by (simp add: evm_mount_def evm_rerender_def rerender_ui unmounted_def initial_state_def
      selection_shown_def)

lemma solana_step_mounted:
  assumes "effectDeps c = Some []"
  shows "fetchLog (solana_step ev c) = fetchLog c \<and> effectDeps (solana_step ev c) = Some []"
proof -
  define c' where "c' =
       (case ev of
          InputChange v \<Rightarrow> c\<lparr>ui := handleInputChange v (ui c)\<rparr>
        | InputFocus \<Rightarrow> c\<lparr>ui := handleInputFocus (ui c)\<rparr>
        | InputBlur \<Rightarrow> handleInputBlur c
        | NetworkSelect nw \<Rightarrow> c\<lparr>ui := solana_handleNetworkSelect nw (ui c)\<rparr>
        | TimerFired \<Rightarrow> fire_timer c
        | FetchSettled resp \<Rightarrow> c\<lparr>ui := solana_fetchNetworks resp (ui c)\<rparr>)"
  have "fetchLog c' = fetchLog c \<and> effectDeps c' = Some []"
    unfolding c'_def using assms
    by (cases ev) (simp_all add: fire_timer_frame handleInputBlur_frame)
  moreover have "solana_step ev c = useEffect (request ''/json/solana.json'') [] c'"
    by (simp add: solana_step_def solana_rerender_def c'_def)
  ultimately show ?thesis using rerender_mounted [of c' "''/json/solana.json''"] by simp
qed

lemma solana_run_mounted:
  "effectDeps c = Some [] \<Longrightarrow>
   fetchLog (fold solana_step evs c) = fetchLog c \<and> effectDeps (fold solana_step evs c) = Some []"
  by (induction evs arbitrary: c) (simp_all add: solana_step_mounted)

lemma solana_select_shown:
  "selection_shown sol_chainName (solana_handleNetworkSelect nw st) \<and>
   selectedNetwork (solana_handleNetworkSelect nw st) = Some nw"
  by (simp add: selection_shown_def solana_handleNetworkSelect_def)

lemma solana_settle_selection:
  "selection_shown display (solana_fetchNetworks resp st) = selection_shown display st"
  unfolding solana_fetchNetworks_def Let_def
  by (rule selection_shown_cong) (simp_all add: settle_selection)

lemma solana_step_selection:
  assumes "selection_shown sol_chainName (ui c)"
  shows "selection_shown sol_chainName (ui (solana_step ev c))"
proof (cases ev)
  case (InputChange v)
  then show ?thesis
    by (simp add: solana_step_def solana_rerender_def rerender_ui selection_shown_None
        handlers_keep_selection)
next
  case InputFocus
  then show ?thesis
    using assms selection_shown_cong [of "handleInputFocus (ui c)" "ui c" sol_chainName]
    by (simp add: solana_step_def solana_rerender_def rerender_ui handlers_keep_selection)
next
  case InputBlur
  then show ?thesis
    using assms
    by (simp add: solana_step_def solana_rerender_def rerender_ui handleInputBlur_frame)
next
  case (NetworkSelect nw)
  then show ?thesis
    by (simp add: solana_step_def solana_rerender_def rerender_ui solana_select_shown)
next
  case TimerFired
  then show ?thesis
    using assms
    by (simp add: solana_step_def solana_rerender_def rerender_ui fire_timer_selection)
next
  case (FetchSettled resp)
  then show ?thesis
    using assms
    by (simp add: solana_step_def solana_rerender_def rerender_ui solana_settle_selection)
qed

lemma solana_fold_selection:
  "selection_shown sol_chainName (ui c) \<Longrightarrow> selection_shown sol_chainName (ui (fold solana_step evs c))"
  by (induction evs arbitrary: c) (simp_all add: solana_step_selection)

lemma solana_mount_selection: "selection_shown sol_chainName (ui solana_mount)"
  by (simp add: solana_mount_def solana_rerender_def rerender_ui unmounted_def initial_state_def
      selection_shown_def)

lemma substrate_step_mounted:
  assumes "effectDeps c = Some []"
  shows "fetchLog (substrate_step ev c) = fetchLog c \<and> effectDeps (substrate_step ev c) = Some []"
proof -
  define c' where "c' =
       (case ev of
          InputChange v \<Rightarrow> c\<lparr>ui := handleInputChange v (ui c)\<rparr>
        | InputFocus \<Rightarrow> c\<lparr>ui := handleInputFocus (ui c)\<rparr>
        | InputBlur \<Rightarrow> handleInputBlur c
        | NetworkSelect nw \<Rightarrow> c\<lparr>ui := substrate_handleNetworkSelect nw (ui c)\<rparr>
        | TimerFired \<Rightarrow> fire_timer c
        | FetchSettled resp \<Rightarrow> c\<lparr>ui := substrate_fetchNetworks resp (ui c)\<rparr>)"
  have "fetchLog c' = fetchLog c \<and> effectDeps c' = Some []"
    unfolding c'_def using assms
    by (cases ev) (simp_all add: fire_timer_frame handleInputBlur_frame)
  moreover have "substrate_step ev c = useEffect (request ''/json/substrate.json'') [] c'"
    by (simp add: substrate_step_def substrate_rerender_def c'_def)
  ultimately show ?thesis using rerender_mounted [of c' "''/json/substrate.json''"] by simp
qed

lemma substrate_run_mounted:
  "effectDeps c = Some [] \<Longrightarrow>
   fetchLog (fold substrate_step evs c) = fetchLog c \<and> effectDeps (fold substrate_step evs c) = Some []"
  by (induction evs arbitrary: c) (simp_all add: substrate_step_mounted)

lemma substrate_select_shown:
  "selection_shown displayName (substrate_handleNetworkSelect nw st) \<and>
   selectedNetwork (substrate_handleNetworkSelect nw st) = Some nw"
  by (simp add: selection_shown_def substrate_handleNetworkSelect_def)

lemma substrate_settle_selection:
  "selection_shown display (substrate_fetchNetworks resp st) = selection_shown display st"
  unfolding substrate_fetchNetworks_def Let_def
  by (rule selection_shown_cong) (simp_all add: settle_selection)

lemma substrate_step_selection:
  assumes "selection_shown displayName (ui c)"
  shows "selection_shown displayName (ui (substrate_step ev c))"
proof (cases ev)
  case (InputChange v)
  then show ?thesis
    by (simp add: substrate_step_def substrate_rerender_def rerender_ui selection_shown_None
        handlers_keep_selection)
next
  case InputFocus
  then show ?thesis
    using assms selection_shown_cong [of "handleInputFocus (ui c)" "ui c" displayName]
    by (simp add: substrate_step_def substrate_rerender_def rerender_ui handlers_keep_selection)
next
  case InputBlur
  then show ?thesis
    using assms
    by (simp add: substrate_step_def substrate_rerender_def rerender_ui handleInputBlur_frame)
next
  case (NetworkSelect nw)
  then show ?thesis
    by (simp add: substrate_step_def substrate_rerender_def rerender_ui substrate_select_shown)
next
  case TimerFired
  then show ?thesis
    using assms
    by (simp add: substrate_step_def substrate_rerender_def rerender_ui fire_timer_selection)
next
  case (FetchSettled resp)
  then show ?thesis
    using assms
    by (simp add: substrate_step_def substrate_rerender_def rerender_ui substrate_settle_selection)
qed

lemma substrate_fold_selection:
  "selection_shown displayName (ui c) \<Longrightarrow> selection_shown displayName (ui (fold substrate_step evs c))"
  by (induction evs arbitrary: c) (simp_all add: substrate_step_selection)

lemma substrate_mount_selection: "selection_shown displayName (ui substrate_mount)"
  by (simp add: substrate_mount_def substrate_rerender_def rerender_ui unmounted_def initial_state_def
      selection_shown_def)

lemma evm_mount_mounted:
  "fetchLog evm_mount = [''/json/evm.json''] \<and> effectDeps evm_mount = Some []"
  unfolding evm_mount_def evm_rerender_def by (rule mount_fetches)

lemma solana_mount_mounted:
  "fetchLog solana_mount = [''/json/solana.json''] \<and> effectDeps solana_mount = Some []"
  unfolding solana_mount_def solana_rerender_def by (rule mount_fetches)

lemma substrate_mount_mounted:
  "fetchLog substrate_mount = [''/json/substrate.json''] \<and> effectDeps substrate_mount = Some []"
  unfolding substrate_mount_def substrate_rerender_def by (rule mount_fetches)

section \<open>Facts about the store\<close>

lemma array_filter_valid:
  "a < length h \<Longrightarrow> h ! a = NetworkArray xs \<Longrightarrow>
   array_filter f a h = Some (length h, h @ [NetworkArray (filter f xs)])"
  by (simp add: array_filter_def alloc_def)

lemma array_slice_valid:
  "a < length h \<Longrightarrow> h ! a = NetworkArray xs \<Longrightarrow>
   array_slice b e a h = Some (length h, h @ [NetworkArray (slice b e xs)])"
  by (simp add: array_slice_def alloc_def)

lemma filter_slice_store:
  assumes "a < length h" and "h ! a = NetworkArray xs"
  shows "(case array_filter f a h of None \<Rightarrow> None | Some (a1, h1) \<Rightarrow> array_slice 0 10 a1 h1) =
         Some (Suc (length h),
               h @ [NetworkArray (filter f xs), NetworkArray (slice 0 10 (filter f xs))])"
proof -
  let ?h1 = "h @ [NetworkArray (filter f xs)]"
  have "length h < length ?h1" and "?h1 ! length h = NetworkArray (filter f xs)"
    by simp_all
  then have "array_slice 0 10 (length h) ?h1 =
             Some (length ?h1, ?h1 @ [NetworkArray (slice 0 10 (filter f xs))])"
    by (rule array_slice_valid)
  then show ?thesis
    using array_filter_valid [OF assms, of f] by simp
qed

lemma Set_add_valid:
  "a < length h \<Longrightarrow> h ! a = StringSet s \<Longrightarrow>
   Set_add a x h = Some (h[a := StringSet (set_add x s)])"
  by (simp add: Set_add_def)

lemma add_all_valid:
  "a < length h \<Longrightarrow> h ! a = StringSet s \<Longrightarrow>
   add_all a xs h = Some (h[a := StringSet (fold set_add xs s)])"
proof (induction xs arbitrary: h s)
  case Nil
  then have "h[a := StringSet s] = h" by (metis list_update_id)
  then show ?case by simp
next
  case (Cons x xs)
  let ?h1 = "h[a := StringSet (set_add x s)]"
  have "a < length ?h1" and "?h1 ! a = StringSet (set_add x s)"
    using Cons.prems by simp_all
  then have "add_all a xs ?h1 = Some (?h1[a := StringSet (fold set_add xs (set_add x s))])"
    by (rule Cons.IH)
  then show ?case
    using Cons.prems by (simp add: Set_add_valid)
qed

lemma add_each_valid:
  "a < length h \<Longrightarrow> h ! a = StringSet s \<Longrightarrow>
   add_each a xss h = Some (h[a := StringSet (fold (fold set_add) xss s)])"
proof (induction xss arbitrary: h s)
  case Nil
  then have "h[a := StringSet s] = h" by (metis list_update_id)
  then show ?case by simp
next
  case (Cons xs xss)
  let ?h1 = "h[a := StringSet (fold set_add xs s)]"
  have "a < length ?h1" and "?h1 ! a = StringSet (fold set_add xs s)"
    using Cons.prems by simp_all
  then have "add_each a xss ?h1 =
             Some (?h1[a := StringSet (fold (fold set_add) xss (fold set_add xs s))])"
    by (rule Cons.IH)
  then show ?case
    using Cons.prems by (simp add: add_all_valid)
qed

lemma getAvailableData_store_valid:
  assumes "r < length h" and "h ! r = NetworkObj nw"
  shows "getAvailableData_store names r h =
         Some (Suc (length h),
               h @ [StringSet (fold (fold set_add) (names nw) []),
                    StringArray (sort (fold (fold set_add) (names nw) []))])"
proof -
  let ?s = "fold (fold set_add) (names nw) []"
  let ?h1 = "h @ [StringSet []]"
  let ?h2 = "h @ [StringSet ?s]"
  let ?h3 = "h @ [StringSet ?s, StringArray ?s]"
  have new: "new_Set h = (length h, ?h1)"
    by (simp add: new_Set_def alloc_def)
  have "length h < length ?h1" and "?h1 ! length h = StringSet []"
    by simp_all
  then have "add_each (length h) (names nw) ?h1 = Some (?h1[length h := StringSet ?s])"
    by (rule add_each_valid)
  then have add: "add_each (length h) (names nw) ?h1 = Some ?h2"
    by simp
  have arr: "Array_from (length h) ?h2 = Some (Suc (length h), ?h3)"
    by (simp add: Array_from_def alloc_def)
  have srt: "array_sort (Suc (length h)) ?h3 =
              Some (Suc (length h), h @ [StringSet ?s, StringArray (sort ?s)])"
    by (simp add: array_sort_def nth_append list_update_append)
  show ?thesis
    using assms by (simp add: getAvailableData_store_def new add arr srt)
qed

lemma evm_names_fold:
  "sort (fold (fold set_add) (evm_item_names nw) []) = evm_getAvailableData nw"
  unfolding evm_getAvailableData_eq evm_item_names_def
  by (simp add: fold_map comp_def)

lemma solana_names_fold:
  "sort (fold (fold set_add) (solana_item_names nw) []) = solana_getAvailableData nw"
  unfolding solana_getAvailableData_eq solana_item_names_def
  by (simp add: fold_map comp_def)

section \<open>The size of the filtered list\<close>

text \<open>
  Claim C1, as amended. For every network list and every search term that is not empty,
  the filtered list of each of the three components has at most ten elements. For the
  empty search term the filtered list is the whole network list, whatever its length.
\<close>

theorem filtered_at_most_ten:
  assumes "tm \<noteq> []"
  shows "length (evm_filteredNetworks tm es) \<le> 10 \<and>
         length (solana_filteredNetworks tm ss) \<le> 10 \<and>
         length (substrate_filteredNetworks tm bs) \<le> 10 \<and>
         evm_filteredNetworks [] es = es \<and>
         solana_filteredNetworks [] ss = ss \<and>
         substrate_filteredNetworks [] bs = bs"
  using assms
  by (simp add: evm_filteredNetworks_def solana_filteredNetworks_def
      substrate_filteredNetworks_def length_slice_le)

text \<open>
  The bound at the search term \<open>13\<close> and lists of twelve records, and the whole list of
  twelve records for the empty term.
\<close>

theorem filtered_at_most_ten_witness:
  "''13'' \<noteq> [] \<and>
   length (evm_filteredNetworks ''13'' (replicate 12 polygon)) \<le> 10 \<and>
   length (solana_filteredNetworks ''13'' (replicate 12 solana_mainnet)) \<le> 10 \<and>
   length (substrate_filteredNetworks ''13'' (replicate 12 moonbeam)) \<le> 10 \<and>
   evm_filteredNetworks [] (replicate 12 polygon) = replicate 12 polygon"
  using filtered_at_most_ten [of "''13''" "replicate 12 polygon" "replicate 12 solana_mainnet"
      "replicate 12 moonbeam"]
  by simp

text \<open>
  Claim C1 as stated includes the empty search term. With eleven records loaded and
  nothing typed, \<^verbatim>\<open>filteredNetworks\<close> returns all eleven.
\<close>

theorem filtered_empty_term_counterexample:
  "\<not> length (evm_filteredNetworks [] (replicate 11 polygon)) \<le> 10"
  by (simp add: evm_filteredNetworks_def)

section \<open>Which records match\<close>

text \<open>
  Claim C2, as amended. Take a search term that is not empty, with the term and the
  lowercased fields ASCII strings and the chain id an integer of magnitude below
  \<open>2^53\<close>, where \<open>toLowerCase\<close> and \<open>toString\<close> are what JavaScript computes. Then a
  Solana record passes the filter exactly when the lowercased term is a substring of
  its lowercased chain name, id or network; an EVM record passes exactly when the
  lowercased term is a substring of its lowercased chain name or id, or the term as
  typed is a prefix of the decimal chain id; a Substrate record passes exactly when the
  lowercased term is a substring of its lowercased display name, name or (when present)
  relay chain, or the term as typed is a prefix of its parachain id (when present).
\<close>

theorem matching_rule:
  assumes ne: "tm \<noteq> []" and "ascii tm"
    and "ascii (sol_chainName s)" and "ascii (sol_id s)" and "ascii (sol_network s)"
    and "ascii (chainName e)" and "ascii (id_str e)" and "\<bar>chainId e\<bar> < 2 ^ 53"
    and "ascii (displayName b)" and "ascii (name b)"
    and "case relayChain b of None \<Rightarrow> True | Some r \<Rightarrow> ascii r"
  shows "(solana_matches tm s \<longleftrightarrow>
            sublist (toLowerCase tm) (toLowerCase (sol_chainName s)) \<or>
            sublist (toLowerCase tm) (toLowerCase (sol_id s)) \<or>
            sublist (toLowerCase tm) (toLowerCase (sol_network s))) \<and>
         (evm_matches tm e \<longleftrightarrow>
            sublist (toLowerCase tm) (toLowerCase (chainName e)) \<or>
            prefix tm (toString (chainId e)) \<or>
            sublist (toLowerCase tm) (toLowerCase (id_str e))) \<and>
         (substrate_matches tm b \<longleftrightarrow>
            sublist (toLowerCase tm) (toLowerCase (displayName b)) \<or>
            sublist (toLowerCase tm) (toLowerCase (name b)) \<or>
            (\<exists>p. parachainId b = Some p \<and> prefix tm p) \<or>
            (\<exists>r. relayChain b = Some r \<and> sublist (toLowerCase tm) (toLowerCase r)))"
proof (intro conjI)
  show "solana_matches tm s \<longleftrightarrow>
            sublist (toLowerCase tm) (toLowerCase (sol_chainName s)) \<or>
            sublist (toLowerCase tm) (toLowerCase (sol_id s)) \<or>
            sublist (toLowerCase tm) (toLowerCase (sol_network s))"
    by (simp add: solana_matches_def Let_def includes_iff_sublist)
  show "evm_matches tm e \<longleftrightarrow>
            sublist (toLowerCase tm) (toLowerCase (chainName e)) \<or>
            prefix tm (toString (chainId e)) \<or>
            sublist (toLowerCase tm) (toLowerCase (id_str e))"
    by (simp add: evm_matches_def Let_def includes_iff_sublist startsWith_iff_prefix)
  show "substrate_matches tm b \<longleftrightarrow>
            sublist (toLowerCase tm) (toLowerCase (displayName b)) \<or>
            sublist (toLowerCase tm) (toLowerCase (name b)) \<or>
            (\<exists>p. parachainId b = Some p \<and> prefix tm p) \<or>
            (\<exists>r. relayChain b = Some r \<and> sublist (toLowerCase tm) (toLowerCase r))"
    unfolding substrate_matches_def Let_def
      truthy_startsWith [OF ne] truthy_includes [OF ne]
    by (simp only: includes_iff_sublist)
qed

text \<open>
  The rule at work, with every hypothesis met. Case is folded: \<open>POLKA\<close> finds Moonbeam
  through its relay chain \<open>polkadot\<close> and finds neither Polygon nor the Solana record,
  and \<open>Poly\<close> and \<open>POLY\<close> both find Polygon. The numeric fields are matched from
  their start: \<open>13\<close> is a prefix of the chain id 137 and occurs in no field of the
  Solana record, and \<open>200\<close> is a prefix of the parachain id 2004.
\<close>

theorem matching_rule_witness:
  "''POLKA'' \<noteq> [] \<and> ascii ''POLKA'' \<and> ascii ''Poly'' \<and> ascii ''13'' \<and> ascii ''200'' \<and>
   ascii (sol_chainName solana_mainnet) \<and> ascii (sol_id solana_mainnet) \<and>
   ascii (sol_network solana_mainnet) \<and>
   ascii (chainName polygon) \<and> ascii (id_str polygon) \<and> \<bar>chainId polygon\<bar> < 2 ^ 53 \<and>
   ascii (displayName moonbeam) \<and> ascii (name moonbeam) \<and>
   (case relayChain moonbeam of None \<Rightarrow> True | Some r \<Rightarrow> ascii r) \<and>
   substrate_matches ''POLKA'' moonbeam \<and> \<not> evm_matches ''POLKA'' polygon \<and>
   \<not> solana_matches ''POLKA'' solana_mainnet \<and>
   evm_matches ''Poly'' polygon \<and> evm_matches ''POLY'' polygon \<and>
   evm_matches ''13'' polygon \<and> \<not> solana_matches ''13'' solana_mainnet \<and>
   substrate_matches ''200'' moonbeam"
proof -
  have t: "ascii ''POLKA''" "ascii ''Poly''" "ascii ''POLY''" "ascii ''13''" "ascii ''200''"
    by code_simp+
  have hs: "ascii (sol_chainName solana_mainnet)" "ascii (sol_id solana_mainnet)"
    "ascii (sol_network solana_mainnet)"
    by code_simp+
  have he: "ascii (chainName polygon)" "ascii (id_str polygon)"
    by code_simp+
  have hc: "\<bar>chainId polygon\<bar> < 2 ^ 53"
    by (simp add: polygon_def)
  have hb: "ascii (displayName moonbeam)" "ascii (name moonbeam)"
    "case relayChain moonbeam of None \<Rightarrow> True | Some r \<Rightarrow> ascii r"
    by code_simp+
  note rule = matching_rule [where s = solana_mainnet and e = polygon and b = moonbeam,
      OF _ _ hs he hc hb]
  have polka: "relayChain moonbeam = Some ''polkadot''"
    "includes_str (toLowerCase ''polkadot'') (toLowerCase ''POLKA'')"
    "\<not> includes_str (toLowerCase (chainName polygon)) (toLowerCase ''POLKA'')"
    "\<not> startsWith (toString (chainId polygon)) ''POLKA''"
    "\<not> includes_str (toLowerCase (id_str polygon)) (toLowerCase ''POLKA'')"
    "\<not> includes_str (toLowerCase (sol_chainName solana_mainnet)) (toLowerCase ''POLKA'')"
    "\<not> includes_str (toLowerCase (sol_id solana_mainnet)) (toLowerCase ''POLKA'')"
    "\<not> includes_str (toLowerCase (sol_network solana_mainnet)) (toLowerCase ''POLKA'')"
    by code_simp+
  have poly: "includes_str (toLowerCase (chainName polygon)) (toLowerCase ''Poly'')"
    "includes_str (toLowerCase (chainName polygon)) (toLowerCase ''POLY'')"
    by code_simp+
  have thirteen: "startsWith (toString (chainId polygon)) ''13''"
    "\<not> includes_str (toLowerCase (sol_chainName solana_mainnet)) (toLowerCase ''13'')"
    "\<not> includes_str (toLowerCase (sol_id solana_mainnet)) (toLowerCase ''13'')"
    "\<not> includes_str (toLowerCase (sol_network solana_mainnet)) (toLowerCase ''13'')"
    by code_simp+
  have para: "parachainId moonbeam = Some ''2004''" "startsWith ''2004'' ''200''"
    by code_simp+
  have a: "substrate_matches ''POLKA'' moonbeam" "\<not> evm_matches ''POLKA'' polygon"
    "\<not> solana_matches ''POLKA'' solana_mainnet"
    using rule [of "''POLKA''"] t polka
    by (simp_all add: includes_iff_sublist startsWith_iff_prefix)
  have b: "evm_matches ''Poly'' polygon"
    using rule [of "''Poly''"] t poly by (simp add: includes_iff_sublist)
  have c: "evm_matches ''POLY'' polygon"
    using rule [of "''POLY''"] t poly by (simp add: includes_iff_sublist)
  have d: "evm_matches ''13'' polygon" "\<not> solana_matches ''13'' solana_mainnet"
    using rule [of "''13''"] t thirteen
    by (simp_all add: includes_iff_sublist startsWith_iff_prefix)
  have e: "substrate_matches ''200'' moonbeam"
    using rule [of "''200''"] t para by (simp add: startsWith_iff_prefix)
  show ?thesis
    using t hs he hc hb a b c d e by simp
qed

text \<open>
  Claim C2 as stated makes every searched field a substring match. The term \<open>37\<close>
  occurs inside the chain id 137 of Polygon, but not at its start and in no other
  searched field: the substring rule accepts the record, the component does not.
\<close>

theorem matching_substring_counterexample:
  "\<not> (evm_matches ''37'' polygon \<longleftrightarrow>
        includes_str (toLowerCase (chainName polygon)) (toLowerCase ''37'') \<or>
        includes_str (toLowerCase (toString (chainId polygon))) (toLowerCase ''37'') \<or>
        includes_str (toLowerCase (id_str polygon)) (toLowerCase ''37''))"
  by code_simp

section \<open>The first ten matches, in order\<close>

text \<open>
  Claim C3. For every network list and every search term that is not empty, the
  filtered list is a subsequence of the loaded list in the same order, all of its
  elements match, it has ten elements or as many as there are matches if these are
  fewer, and it consists of all the matches among the first \<open>k\<close> records for some
  \<open>k\<close>: a match that is left out stands after every match that is kept.
\<close>

theorem first_ten_matches:
  assumes "tm \<noteq> []"
  shows
    "(subseq (evm_filteredNetworks tm es) es \<and>
      (\<forall>x\<in>set (evm_filteredNetworks tm es). evm_matches tm x) \<and>
      length (evm_filteredNetworks tm es) = min 10 (length (filter (evm_matches tm) es)) \<and>
      (\<exists>k\<le>length es. evm_filteredNetworks tm es = filter (evm_matches tm) (take k es))) \<and>
     (subseq (solana_filteredNetworks tm ss) ss \<and>
      (\<forall>x\<in>set (solana_filteredNetworks tm ss). solana_matches tm x) \<and>
      length (solana_filteredNetworks tm ss) = min 10 (length (filter (solana_matches tm) ss)) \<and>
      (\<exists>k\<le>length ss. solana_filteredNetworks tm ss = filter (solana_matches tm) (take k ss))) \<and>
     (subseq (substrate_filteredNetworks tm bs) bs \<and>
      (\<forall>x\<in>set (substrate_filteredNetworks tm bs). substrate_matches tm x) \<and>
      length (substrate_filteredNetworks tm bs) =
        min 10 (length (filter (substrate_matches tm) bs)) \<and>
      (\<exists>k\<le>length bs.
         substrate_filteredNetworks tm bs = filter (substrate_matches tm) (take k bs)))"
proof -
  have e: "evm_filteredNetworks tm es = slice 0 10 (filter (evm_matches tm) es)"
    using assms by (simp add: evm_filteredNetworks_def)
  have s: "solana_filteredNetworks tm ss = slice 0 10 (filter (solana_matches tm) ss)"
    using assms by (simp add: solana_filteredNetworks_def)
  have b: "substrate_filteredNetworks tm bs = slice 0 10 (filter (substrate_matches tm) bs)"
    using assms by (simp add: substrate_filteredNetworks_def)
  show ?thesis
    unfolding e s b
    using first_matches [of 10 "evm_matches tm" es]
      first_matches [of 10 "solana_matches tm" ss]
      first_matches [of 10 "substrate_matches tm" bs]
    by blast
qed

theorem first_ten_matches_witness:
  "''poly'' \<noteq> [] \<and>
   subseq (evm_filteredNetworks ''poly'' (replicate 12 polygon)) (replicate 12 polygon) \<and>
   length (evm_filteredNetworks ''poly'' (replicate 12 polygon)) =
     min 10 (length (filter (evm_matches ''poly'') (replicate 12 polygon))) \<and>
   subseq (solana_filteredNetworks ''poly'' [solana_mainnet]) [solana_mainnet] \<and>
   subseq (substrate_filteredNetworks ''poly'' [moonbeam]) [moonbeam]"
proof -
  have ne: "''poly'' \<noteq> []" by simp
  from first_ten_matches [OF ne, of "replicate 12 polygon" "[solana_mainnet]" "[moonbeam]"]
  show ?thesis using ne by blast
qed

section \<open>The names shown in the details panel\<close>

text \<open>
  Claim C4. For every selected network, the details panel that the EVM and the Solana
  component render (when not loading) displays the selected network together with the
  list returned by \<^verbatim>\<open>getAvailableData\<close> for it, and a name is in that list exactly
  when some provider of the network lists a data item with that name; the name of a
  bare string item is the string itself.
\<close>

theorem available_data_members:
  "(\<not> loading se \<and> selectedNetwork se = Some nw \<longrightarrow>
      details (evm_render se) = Some (nw, evm_getAvailableData nw)) \<and>
   (x \<in> set (evm_getAvailableData nw) \<longleftrightarrow>
      (\<exists>p\<in>set (providers nw). \<exists>item\<in>set (data p).
         (case item of Plain s \<Rightarrow> s | Ranged nm rs \<Rightarrow> nm) = x)) \<and>
   (\<not> loading ss \<and> selectedNetwork ss = Some sw \<longrightarrow>
      details (solana_render ss) = Some (sw, solana_getAvailableData sw)) \<and>
   (y \<in> set (solana_getAvailableData sw) \<longleftrightarrow>
      (\<exists>p\<in>set (sol_providers sw). \<exists>item\<in>set (sol_data p). item_name item = y))"
proof (intro conjI)
  show "\<not> loading se \<and> selectedNetwork se = Some nw \<longrightarrow>
      details (evm_render se) = Some (nw, evm_getAvailableData nw)"
    by (simp add: evm_render_def Let_def)
  show "\<not> loading ss \<and> selectedNetwork ss = Some sw \<longrightarrow>
      details (solana_render ss) = Some (sw, solana_getAvailableData sw)"
    by (simp add: solana_render_def Let_def)
  show "x \<in> set (evm_getAvailableData nw) \<longleftrightarrow>
      (\<exists>p\<in>set (providers nw). \<exists>item\<in>set (data p).
         (case item of Plain s \<Rightarrow> s | Ranged nm rs \<Rightarrow> nm) = x)"
    unfolding evm_getAvailableData_eq set_sort set_fold_fold_add by auto
  show "y \<in> set (solana_getAvailableData sw) \<longleftrightarrow>
      (\<exists>p\<in>set (sol_providers sw). \<exists>item\<in>set (sol_data p). item_name item = y)"
    unfolding solana_getAvailableData_eq set_sort set_fold_fold_add by auto
qed

text \<open>
  With Polygon selected the panel displays \<open>blocks\<close>, \<open>logs\<close> and \<open>traces\<close>:
  \<open>logs\<close> is listed under both providers and \<open>cats\<close> under none. With the Solana
  record selected the panel displays \<open>blocks\<close> and \<open>transactions\<close>.
\<close>

theorem available_data_members_witness:
  "\<not> loading polygon_selected \<and> selectedNetwork polygon_selected = Some polygon \<and>
   details (evm_render polygon_selected) = Some (polygon, [''blocks'', ''logs'', ''traces'']) \<and>
   ''logs'' \<in> set (evm_getAvailableData polygon) \<and>
   ''cats'' \<notin> set (evm_getAvailableData polygon) \<and>
   \<not> loading solana_selected \<and> selectedNetwork solana_selected = Some solana_mainnet \<and>
   details (solana_render solana_selected) =
     Some (solana_mainnet, [''blocks'', ''transactions'']) \<and>
   ''blocks'' \<in> set (solana_getAvailableData solana_mainnet)"
proof -
  have se: "\<not> loading polygon_selected" "selectedNetwork polygon_selected = Some polygon"
    by (simp_all add: polygon_selected_def)
  have ss: "\<not> loading solana_selected" "selectedNetwork solana_selected = Some solana_mainnet"
    by (simp_all add: solana_selected_def)
  have ve: "evm_getAvailableData polygon = [''blocks'', ''logs'', ''traces'']"
    by code_simp
  have vs: "solana_getAvailableData solana_mainnet = [''blocks'', ''transactions'']"
    by code_simp
  have a: "\<exists>p\<in>set (providers polygon). \<exists>item\<in>set (data p).
             (case item of Plain s \<Rightarrow> s | Ranged nm rs \<Rightarrow> nm) = ''logs''"
    by (simp add: polygon_def)
  have b: "\<not> (\<exists>p\<in>set (providers polygon). \<exists>item\<in>set (data p).
             (case item of Plain s \<Rightarrow> s | Ranged nm rs \<Rightarrow> nm) = ''cats'')"
    by (simp add: polygon_def)
  have c: "\<exists>p\<in>set (sol_providers solana_mainnet). \<exists>item\<in>set (sol_data p).
             item_name item = ''blocks''"
    by (simp add: solana_mainnet_def)
  note l = available_data_members [of polygon_selected polygon "''logs''"
      solana_selected solana_mainnet "''blocks''"]
  note m = available_data_members [of polygon_selected polygon "''cats''"
      solana_selected solana_mainnet "''blocks''"]
  have "details (evm_render polygon_selected) = Some (polygon, [''blocks'', ''logs'', ''traces''])"
    using l se ve by simp
  moreover have "details (solana_render solana_selected) =
     Some (solana_mainnet, [''blocks'', ''transactions''])"
    using l ss vs by simp
  moreover have "''logs'' \<in> set (evm_getAvailableData polygon)"
    using l a by blast
  moreover have "''cats'' \<notin> set (evm_getAvailableData polygon)"
    using m b by blast
  moreover have "''blocks'' \<in> set (solana_getAvailableData solana_mainnet)"
    using l c by blast
  ultimately show ?thesis using se ss by blast
qed

section \<open>What is rendered below the input\<close>

text \<open>
  Claim C5. In every state that is not loading, each component renders the page and
  not the loading placeholder; the details panel is rendered exactly when a network is
  selected; the message that the term is not in the data lake is rendered exactly when
  the search term is not empty, no network is selected and the filtered list is empty;
  the panel and the message are never rendered together.
\<close>

theorem panel_and_message:
  assumes "\<not> loading se" and "\<not> loading ss" and "\<not> loading sb"
  shows
    "(evm_render se \<noteq> LoadingView \<and>
      (details (evm_render se) \<noteq> None \<longleftrightarrow> selectedNetwork se \<noteq> None) \<and>
      (notFound (evm_render se) \<noteq> None \<longleftrightarrow>
         searchTerm se \<noteq> [] \<and> selectedNetwork se = None \<and>
         evm_filteredNetworks (searchTerm se) (networks se) = []) \<and>
      \<not> (details (evm_render se) \<noteq> None \<and> notFound (evm_render se) \<noteq> None)) \<and>
     (solana_render ss \<noteq> LoadingView \<and>
      (details (solana_render ss) \<noteq> None \<longleftrightarrow> selectedNetwork ss \<noteq> None) \<and>
      (notFound (solana_render ss) \<noteq> None \<longleftrightarrow>
         searchTerm ss \<noteq> [] \<and> selectedNetwork ss = None \<and>
         solana_filteredNetworks (searchTerm ss) (networks ss) = []) \<and>
      \<not> (details (solana_render ss) \<noteq> None \<and> notFound (solana_render ss) \<noteq> None)) \<and>
     (substrate_render sb \<noteq> LoadingView \<and>
      (details (substrate_render sb) \<noteq> None \<longleftrightarrow> selectedNetwork sb \<noteq> None) \<and>
      (notFound (substrate_render sb) \<noteq> None \<longleftrightarrow>
         searchTerm sb \<noteq> [] \<and> selectedNetwork sb = None \<and>
         substrate_filteredNetworks (searchTerm sb) (networks sb) = []) \<and>
      \<not> (details (substrate_render sb) \<noteq> None \<and> notFound (substrate_render sb) \<noteq> None))"
proof (intro conjI)
  show "evm_render se \<noteq> LoadingView"
    using assms(1) by (simp add: evm_render_def Let_def)
  show "details (evm_render se) \<noteq> None \<longleftrightarrow> selectedNetwork se \<noteq> None"
    using assms(1) by (simp add: evm_render_def Let_def split: option.splits)
  show "notFound (evm_render se) \<noteq> None \<longleftrightarrow>
         searchTerm se \<noteq> [] \<and> selectedNetwork se = None \<and>
         evm_filteredNetworks (searchTerm se) (networks se) = []"
    using assms(1) by (simp add: evm_render_def Let_def)
  show "\<not> (details (evm_render se) \<noteq> None \<and> notFound (evm_render se) \<noteq> None)"
    using assms(1) by (simp add: evm_render_def Let_def split: option.splits)
  show "solana_render ss \<noteq> LoadingView"
    using assms(2) by (simp add: solana_render_def Let_def)
  show "details (solana_render ss) \<noteq> None \<longleftrightarrow> selectedNetwork ss \<noteq> None"
    using assms(2) by (simp add: solana_render_def Let_def split: option.splits)
  show "notFound (solana_render ss) \<noteq> None \<longleftrightarrow>
         searchTerm ss \<noteq> [] \<and> selectedNetwork ss = None \<and>
         solana_filteredNetworks (searchTerm ss) (networks ss) = []"
    using assms(2) by (simp add: solana_render_def Let_def)
  show "\<not> (details (solana_render ss) \<noteq> None \<and> notFound (solana_render ss) \<noteq> None)"
    using assms(2) by (simp add: solana_render_def Let_def split: option.splits)
  show "substrate_render sb \<noteq> LoadingView"
    using assms(3) by (simp add: substrate_render_def Let_def)
  show "details (substrate_render sb) \<noteq> None \<longleftrightarrow> selectedNetwork sb \<noteq> None"
    using assms(3) by (simp add: substrate_render_def Let_def split: option.splits)
  show "notFound (substrate_render sb) \<noteq> None \<longleftrightarrow>
         searchTerm sb \<noteq> [] \<and> selectedNetwork sb = None \<and>
         substrate_filteredNetworks (searchTerm sb) (networks sb) = []"
    using assms(3) by (simp add: substrate_render_def Let_def)
  show "\<not> (details (substrate_render sb) \<noteq> None \<and> notFound (substrate_render sb) \<noteq> None)"
    using assms(3) by (simp add: substrate_render_def Let_def split: option.splits)
qed

text \<open>
  A selected Polygon shows the panel and no message, a search that matches shows
  neither, a search without a match shows the message and no panel.
\<close>

theorem panel_and_message_witness:
  "\<not> loading polygon_selected \<and> \<not> loading solana_typing \<and> \<not> loading substrate_unknown \<and>
   details (evm_render polygon_selected) \<noteq> None \<and>
   notFound (evm_render polygon_selected) = None \<and>
   details (solana_render solana_typing) = None \<and>
   notFound (solana_render solana_typing) = None \<and>
   details (substrate_render substrate_unknown) = None \<and>
   notFound (substrate_render substrate_unknown) \<noteq> None"
proof -
  have l: "\<not> loading polygon_selected" "\<not> loading solana_typing" "\<not> loading substrate_unknown"
    by (simp_all add: polygon_selected_def solana_typing_def substrate_unknown_def)
  have e: "selectedNetwork polygon_selected \<noteq> None"
    by (simp add: polygon_selected_def)
  have s: "selectedNetwork solana_typing = None"
    "solana_filteredNetworks (searchTerm solana_typing) (networks solana_typing) \<noteq> []"
    by code_simp+
  have b: "selectedNetwork substrate_unknown = None" "searchTerm substrate_unknown \<noteq> []"
    "substrate_filteredNetworks (searchTerm substrate_unknown) (networks substrate_unknown) = []"
    by code_simp+
  from panel_and_message [OF l] e s b l show ?thesis by blast
qed

section \<open>Computing leaves the loaded data alone\<close>

text \<open>
  Claim C6. When the \<^verbatim>\<open>networks\<close> cell refers to an array in the store,
  \<^verbatim>\<open>filteredNetworks\<close> of the EVM and of the Solana component returns a result for
  every search term, and every object that was in the store before the call is the
  same after it: in particular the network array has the same elements in the same
  order. The same holds for \<^verbatim>\<open>getAvailableData\<close> and the network record it is
  given: the set it fills and the array it sorts in place are objects of its own. The
  results hold the values that the functions compute.
\<close>

theorem computing_leaves_the_store:
  assumes "ae < length he" and "he ! ae = NetworkArray netse"
    and "re < length he" and "he ! re = NetworkObj nwe"
    and "as < length hs" and "hs ! as = NetworkArray netss"
    and "rs < length hs" and "hs ! rs = NetworkObj nws"
  shows
    "(\<exists>res h'. evm_filteredNetworks_store tm ae he = Some (res, h') \<and>
        take (length he) h' = he \<and> h' ! ae = NetworkArray netse \<and>
        res < length h' \<and> h' ! res = NetworkArray (evm_filteredNetworks tm netse)) \<and>
     (\<exists>res h'. solana_filteredNetworks_store tm as hs = Some (res, h') \<and>
        take (length hs) h' = hs \<and> h' ! as = NetworkArray netss \<and>
        res < length h' \<and> h' ! res = NetworkArray (solana_filteredNetworks tm netss)) \<and>
     (\<exists>res h'. evm_getAvailableData_store re he = Some (res, h') \<and>
        take (length he) h' = he \<and> h' ! re = NetworkObj nwe \<and>
        res < length h' \<and> h' ! res = StringArray (evm_getAvailableData nwe)) \<and>
     (\<exists>res h'. solana_getAvailableData_store rs hs = Some (res, h') \<and>
        take (length hs) h' = hs \<and> h' ! rs = NetworkObj nws \<and>
        res < length h' \<and> h' ! res = StringArray (solana_getAvailableData nws))"
proof (intro conjI)
  show "\<exists>res h'. evm_filteredNetworks_store tm ae he = Some (res, h') \<and>
        take (length he) h' = he \<and> h' ! ae = NetworkArray netse \<and>
        res < length h' \<and> h' ! res = NetworkArray (evm_filteredNetworks tm netse)"
  proof (cases "tm = []")
    case True
    then show ?thesis
      using assms(1,2) by (simp add: evm_filteredNetworks_store_def evm_filteredNetworks_def)
  next
    case False
    then show ?thesis
      using assms(1,2) filter_slice_store [OF assms(1,2), of "evm_matches tm"]
      by (simp add: evm_filteredNetworks_store_def evm_filteredNetworks_def nth_append)
  qed
  show "\<exists>res h'. solana_filteredNetworks_store tm as hs = Some (res, h') \<and>
        take (length hs) h' = hs \<and> h' ! as = NetworkArray netss \<and>
        res < length h' \<and> h' ! res = NetworkArray (solana_filteredNetworks tm netss)"
  proof (cases "tm = []")
    case True
    then show ?thesis
      using assms(5,6) by (simp add: solana_filteredNetworks_store_def solana_filteredNetworks_def)
  next
    case False
    then show ?thesis
      using assms(5,6) filter_slice_store [OF assms(5,6), of "solana_matches tm"]
      by (simp add: solana_filteredNetworks_store_def solana_filteredNetworks_def nth_append)
  qed
  show "\<exists>res h'. evm_getAvailableData_store re he = Some (res, h') \<and>
        take (length he) h' = he \<and> h' ! re = NetworkObj nwe \<and>
        res < length h' \<and> h' ! res = StringArray (evm_getAvailableData nwe)"
    using assms(3,4) getAvailableData_store_valid [OF assms(3,4), of evm_item_names]
    by (simp add: evm_getAvailableData_store_def evm_names_fold nth_append)
  show "\<exists>res h'. solana_getAvailableData_store rs hs = Some (res, h') \<and>
        take (length hs) h' = hs \<and> h' ! rs = NetworkObj nws \<and>
        res < length h' \<and> h' ! res = StringArray (solana_getAvailableData nws)"
    using assms(7,8) getAvailableData_store_valid [OF assms(7,8), of solana_item_names]
    by (simp add: solana_getAvailableData_store_def solana_names_fold nth_append)
qed

text \<open>Two stores of two objects each; after the four calls both are as before.\<close>

theorem computing_leaves_the_store_witness:
  "0 < length evm_store \<and> evm_store ! 0 = NetworkArray [polygon, polygon] \<and>
   1 < length evm_store \<and> evm_store ! 1 = NetworkObj polygon \<and>
   1 < length solana_store \<and> solana_store ! 1 = NetworkArray [solana_mainnet] \<and>
   0 < length solana_store \<and> solana_store ! 0 = NetworkObj solana_mainnet \<and>
   take (length evm_store) (snd (the (evm_filteredNetworks_store ''poly'' 0 evm_store))) =
     evm_store \<and>
   take (length solana_store) (snd (the (solana_filteredNetworks_store ''sol'' 1 solana_store))) =
     solana_store \<and>
   take (length evm_store) (snd (the (evm_getAvailableData_store 1 evm_store))) = evm_store \<and>
   take (length solana_store) (snd (the (solana_getAvailableData_store 0 solana_store))) =
     solana_store"
proof -
  have e: "0 < length evm_store" "evm_store ! 0 = NetworkArray [polygon, polygon]"
    "1 < length evm_store" "evm_store ! 1 = NetworkObj polygon"
    by (simp_all add: evm_store_def)
  have s: "1 < length solana_store" "solana_store ! 1 = NetworkArray [solana_mainnet]"
    "0 < length solana_store" "solana_store ! 0 = NetworkObj solana_mainnet"
    by (simp_all add: solana_store_def)
  note t = computing_leaves_the_store [OF e s, of "''poly''"]
  note u = computing_leaves_the_store [OF e s, of "''sol''"]
  have "take (length evm_store) (snd (the (evm_filteredNetworks_store ''poly'' 0 evm_store))) =
     evm_store"
    using t by auto
  moreover have "take (length solana_store)
      (snd (the (solana_filteredNetworks_store ''sol'' 1 solana_store))) = solana_store"
    using u by auto
  moreover have "take (length evm_store) (snd (the (evm_getAvailableData_store 1 evm_store))) =
     evm_store"
    using t by auto
  moreover have "take (length solana_store)
      (snd (the (solana_getAvailableData_store 0 solana_store))) = solana_store"
    using t by auto
  ultimately show ?thesis using e s by simp
qed

section \<open>One request per mount\<close>

text \<open>
  Claim C7. After a mount and any sequence of events (typing, focus, blur, selecting a
  record, a timer that fires, the request that settles), each component has issued
  exactly one request, for its own static document: the effect that calls
  \<^verbatim>\<open>fetchNetworks\<close> has an empty dependency array and runs after the first render
  only.
\<close>

theorem one_fetch_per_mount:
  "fetchLog (evm_run evs) = [''/json/evm.json''] \<and>
   fetchLog (solana_run evs') = [''/json/solana.json''] \<and>
   fetchLog (substrate_run evs'') = [''/json/substrate.json'']"
proof (intro conjI)
  show "fetchLog (evm_run evs) = [''/json/evm.json'']"
    unfolding evm_run_def
    using evm_run_mounted [of evm_mount evs] evm_mount_mounted by simp
  show "fetchLog (solana_run evs') = [''/json/solana.json'']"
    unfolding solana_run_def
    using solana_run_mounted [of solana_mount evs'] solana_mount_mounted by simp
  show "fetchLog (substrate_run evs'') = [''/json/substrate.json'']"
    unfolding substrate_run_def
    using substrate_run_mounted [of substrate_mount evs''] substrate_mount_mounted by simp
qed

text \<open>
  A session: focus, typing, the request fails, a record is selected, the input is left
  and the timer fires. One request has been issued.
\<close>

theorem one_fetch_per_mount_witness:
  "fetchLog (evm_run [InputFocus, InputChange ''poly'', FetchSettled FetchRejected,
      NetworkSelect polygon, InputBlur, TimerFired]) = [''/json/evm.json''] \<and>
   fetchLog (solana_run [InputChange ''s'', InputChange ''so'', NetworkSelect solana_mainnet]) =
     [''/json/solana.json''] \<and>
   fetchLog (substrate_run []) = [''/json/substrate.json'']"
  using one_fetch_per_mount
    [of "[InputFocus, InputChange ''poly'', FetchSettled FetchRejected,
          NetworkSelect polygon, InputBlur, TimerFired]"
        "[InputChange ''s'', InputChange ''so'', NetworkSelect solana_mainnet]" "[]"]
  by blast

section \<open>The selection and the search term\<close>

text \<open>
  Claim C8. In each component, whenever a network is selected the search term is that
  network's display name (\<^verbatim>\<open>chainName\<close> for EVM and Solana, \<^verbatim>\<open>displayName\<close> for
  Substrate): every event keeps this true, and it is true after a mount and any
  sequence of events. \<^verbatim>\<open>handleNetworkSelect\<close> establishes it,
  \<^verbatim>\<open>handleInputChange\<close> clears the selection, and \<^verbatim>\<open>handleInputFocus\<close>,
  \<^verbatim>\<open>handleInputBlur\<close> and the timer that the latter sets change neither the
  selection nor the search term.
\<close>

theorem selection_matches_search_term:
  "(selection_shown chainName (ui ce) \<longrightarrow> selection_shown chainName (ui (evm_step eve ce))) \<and>
   (selection_shown sol_chainName (ui cs) \<longrightarrow>
      selection_shown sol_chainName (ui (solana_step evs cs))) \<and>
   (selection_shown displayName (ui cb) \<longrightarrow>
      selection_shown displayName (ui (substrate_step evb cb))) \<and>
   selection_shown chainName (ui (evm_run evse)) \<and>
   selection_shown sol_chainName (ui (solana_run evss)) \<and>
   selection_shown displayName (ui (substrate_run evsb)) \<and>
   selection_shown chainName (evm_handleNetworkSelect ne se) \<and>
   selectedNetwork (evm_handleNetworkSelect ne se) = Some ne \<and>
   selection_shown sol_chainName (solana_handleNetworkSelect ns ss) \<and>
   selectedNetwork (solana_handleNetworkSelect ns ss) = Some ns \<and>
   selection_shown displayName (substrate_handleNetworkSelect nb sb) \<and>
   selectedNetwork (substrate_handleNetworkSelect nb sb) = Some nb \<and>
   selectedNetwork (handleInputChange v st) = None \<and>
   selectedNetwork (handleInputFocus st) = selectedNetwork st \<and>
   searchTerm (handleInputFocus st) = searchTerm st \<and>
   ui (handleInputBlur c) = ui c \<and>
   selectedNetwork (closeDropdown st) = selectedNetwork st \<and>
   searchTerm (closeDropdown st) = searchTerm st"
  unfolding evm_run_def solana_run_def substrate_run_def
  by (simp add: evm_step_selection solana_step_selection substrate_step_selection
      evm_fold_selection solana_fold_selection substrate_fold_selection
      evm_mount_selection solana_mount_selection substrate_mount_selection
      evm_select_shown solana_select_shown substrate_select_shown
      handlers_keep_selection handleInputBlur_frame)

text \<open>
  From the mounted component, where nothing is selected: selecting Polygon, typing and
  leaving the input.
\<close>

theorem selection_matches_search_term_witness:
  "selection_shown chainName (ui evm_mount) \<and>
   selection_shown chainName (ui (evm_step (NetworkSelect polygon) evm_mount)) \<and>
   selection_shown sol_chainName (ui solana_mount) \<and>
   selection_shown sol_chainName (ui (solana_step (InputChange ''sol'') solana_mount)) \<and>
   selection_shown displayName (ui substrate_mount) \<and>
   selection_shown displayName (ui (substrate_step InputBlur substrate_mount))"
proof -
  have e: "selection_shown chainName (ui evm_mount)"
    by (simp add: evm_mount_def evm_rerender_def useEffect_def deps_changed_def unmounted_def
        request_def initial_state_def selection_shown_def)
  have s: "selection_shown sol_chainName (ui solana_mount)"
    by (simp add: solana_mount_def solana_rerender_def useEffect_def deps_changed_def
        unmounted_def request_def initial_state_def selection_shown_def)
  have b: "selection_shown displayName (ui substrate_mount)"
    by (simp add: substrate_mount_def substrate_rerender_def useEffect_def deps_changed_def
        unmounted_def request_def initial_state_def selection_shown_def)
  from selection_matches_search_term [where ce = evm_mount and eve = "NetworkSelect polygon"
      and cs = solana_mount and evs = "InputChange ''sol''"
      and cb = substrate_mount and evb = InputBlur] e s b
  show ?thesis by blast
qed

section \<open>When loading fails\<close>

text \<open>
  Claim C9. Whatever the outcome of the request, \<^verbatim>\<open>loading\<close> is false once
  \<^verbatim>\<open>fetchNetworks\<close> has completed. When the request is rejected, the body is not
  JSON, or the document has no value under the expected top-level key
  (\<^verbatim>\<open>archives\<close> for EVM and Solana, \<^verbatim>\<open>networks\<close> for Substrate), the network list
  is empty as well.
\<close>

theorem load_failure_state:
  "\<not> loading (evm_fetchNetworks re se) \<and>
   \<not> loading (solana_fetchNetworks rs ss) \<and>
   \<not> loading (substrate_fetchNetworks rb sb) \<and>
   (re = FetchRejected \<or> re = JsonRejected \<or> (\<exists>d. re = Parsed d \<and> \<not> has_key ''archives'' d)
      \<longrightarrow> networks (evm_fetchNetworks re se) = []) \<and>
   (rs = FetchRejected \<or> rs = JsonRejected \<or> (\<exists>d. rs = Parsed d \<and> \<not> has_key ''archives'' d)
      \<longrightarrow> networks (solana_fetchNetworks rs ss) = []) \<and>
   (rb = FetchRejected \<or> rb = JsonRejected \<or> (\<exists>d. rb = Parsed d \<and> \<not> has_key ''networks'' d)
      \<longrightarrow> networks (substrate_fetchNetworks rb sb) = [])"
  unfolding evm_fetchNetworks_def solana_fetchNetworks_def substrate_fetchNetworks_def Let_def
  using try_load_failure [of re "''archives''"] try_load_failure [of rs "''archives''"]
    try_load_failure [of rb "''networks''"]
    settle_failure [of "try_load ''archives'' re" se]
    settle_failure [of "try_load ''archives'' rs" ss]
    settle_failure [of "try_load ''networks'' rb" sb]
  by (simp only: settle_loading) blast

text \<open>
  A document with the key \<open>chains\<close> only, a rejected request and a body that is not
  JSON.
\<close>

theorem load_failure_state_witness:
  "\<not> has_key ''archives'' (ObjectDoc [''chains'' \<mapsto> Networks [polygon]]) \<and>
   networks (evm_fetchNetworks (Parsed (ObjectDoc [''chains'' \<mapsto> Networks [polygon]]))
               (initial_state\<lparr>networks := [polygon]\<rparr>)) = [] \<and>
   \<not> loading (evm_fetchNetworks (Parsed (ObjectDoc [''chains'' \<mapsto> Networks [polygon]]))
               (initial_state\<lparr>networks := [polygon]\<rparr>)) \<and>
   networks (solana_fetchNetworks FetchRejected initial_state) = [] \<and>
   networks (substrate_fetchNetworks JsonRejected initial_state) = []"
proof -
  have k: "\<not> has_key ''archives''
             (ObjectDoc [''chains'' \<mapsto> Networks [polygon]] :: NetworkData document)"
    by (simp add: has_key_def)
  from load_failure_state [of "Parsed (ObjectDoc [''chains'' \<mapsto> Networks [polygon]])"
      "initial_state\<lparr>networks := [polygon]\<rparr>" FetchRejected initial_state
      JsonRejected initial_state] k
  show ?thesis by blast
qed

section \<open>The order of the names\<close>

text \<open>
  Claim C10. For every network of the EVM and of the Solana component, also one whose
  providers list a name more than once, the list returned by \<^verbatim>\<open>getAvailableData\<close>
  is strictly ascending in the order of strings, and so has no name twice.
\<close>

theorem available_data_strictly_sorted:
  "sorted_wrt (<) (evm_getAvailableData nw) \<and> distinct (evm_getAvailableData nw) \<and>
   sorted_wrt (<) (solana_getAvailableData sw) \<and> distinct (solana_getAvailableData sw)"
  unfolding evm_getAvailableData_eq solana_getAvailableData_eq strict_sorted_iff
  by (simp add: distinct_fold_fold_add)

text \<open>
  Polygon lists \<open>logs\<close> and \<open>blocks\<close> under both of its providers, the Solana record
  lists \<open>transactions\<close> twice under one provider; each name comes out once.
\<close>

theorem available_data_strictly_sorted_witness:
  "sorted_wrt (<) (evm_getAvailableData polygon) \<and>
   evm_getAvailableData polygon = [''blocks'', ''logs'', ''traces''] \<and>
   sorted_wrt (<) (solana_getAvailableData solana_mainnet) \<and>
   solana_getAvailableData solana_mainnet = [''blocks'', ''transactions'']"
proof -
  have e: "evm_getAvailableData polygon = [''blocks'', ''logs'', ''traces'']"
    by code_simp
  have s: "solana_getAvailableData solana_mainnet = [''blocks'', ''transactions'']"
    by code_simp
  from available_data_strictly_sorted [of polygon solana_mainnet]
  have "sorted_wrt (<) (evm_getAvailableData polygon)"
    and "sorted_wrt (<) (solana_getAvailableData solana_mainnet)"
    by blast+
  then show ?thesis using e s by blast
qed

end
